theory Spec2Isabelle
  imports Main "HOL-Library.Char_ord" "HOL-Library.List_Lexorder"
begin

section \<open>Payment routes and gateway adapters of the Mallgram backend\<close>

text \<open>
  The development embeds the payment router (\<^verbatim>\<open>routes/payments.js\<close>: \<^verbatim>\<open>GET /methods\<close>,
  \<^verbatim>\<open>POST /initialize\<close>, \<^verbatim>\<open>POST /webhook\<close>) and the five gateway services
  (\<^verbatim>\<open>koraPayService\<close>, \<^verbatim>\<open>mtnService\<close>, \<^verbatim>\<open>orangeService\<close>, \<^verbatim>\<open>payGateService\<close>,
  \<^verbatim>\<open>payFastService\<close>).

  Conventions of the embedding:
  \<^item> a JavaScript value that the handlers read is a \<open>json\<close>; \<open>undefined\<close> is \<open>None\<close> of
    \<open>json option\<close>; numbers are integers;
  \<^item> a thrown exception is the \<open>Inl\<close> of a sum, so every \<^verbatim>\<open>throw\<close> and every
    \<^verbatim>\<open>TypeError\<close> of the source is a branch;
  \<^item> the Supabase tables are maps from the primary key \<^verbatim>\<open>id\<close> to the row, held in the
    record \<open>world\<close> together with the log of confirmation emails handed to the email
    service and the log of gateway services invoked by \<^verbatim>\<open>/initialize\<close>;
  \<^item> \<^verbatim>\<open>Date.now()\<close> is the argument \<open>now\<close> (one reading of the clock per request);
  \<^item> the digests (MD5, HMAC-SHA512), \<^verbatim>\<open>JSON.stringify\<close>, \<^verbatim>\<open>encodeURIComponent\<close> and the
    answers of the remote gateways are fields of the record \<open>env\<close>; every theorem holds
    for all of them.
\<close>

subsection \<open>JavaScript values\<close>

datatype json = JNull | JBool bool | JNum int | JStr string | JObj "(string \<times> json) list"

type_synonym obj = "(string \<times> json) list"

text \<open>\<^verbatim>\<open>o[k]\<close>: the value of a property, \<open>None\<close> when the object has none.\<close>

definition prop_of :: "obj \<Rightarrow> string \<Rightarrow> json option" where
  "prop_of d k = map_of d k"

fun truthy :: "json option \<Rightarrow> bool" where
  "truthy None = False"
| "truthy (Some JNull) = False"
| "truthy (Some (JBool b)) = b"
| "truthy (Some (JNum n)) = (n \<noteq> 0)"
| "truthy (Some (JStr s)) = (s \<noteq> [])"
| "truthy (Some (JObj d)) = True"

definition truthy_str :: "string option \<Rightarrow> bool" where
  "truthy_str s = (case s of None \<Rightarrow> False | Some t \<Rightarrow> t \<noteq> [])"

text \<open>\<^verbatim>\<open>a || b\<close>\<close>

definition js_or :: "json option \<Rightarrow> json option \<Rightarrow> json option" where
  "js_or a b = (if truthy a then a else b)"

definition js_or_str :: "string option \<Rightarrow> string option \<Rightarrow> string option" where
  "js_or_str a b = (if truthy_str a then a else b)"

text \<open>Decimal notation of a number; \<open>digit_char\<close> is only applied to numbers below 10.\<close>

definition digit_char :: "nat \<Rightarrow> char" where
  "digit_char d = ''0123456789'' ! d"

fun digits :: "nat \<Rightarrow> string" where
  "digits n = (if n < 10 then [digit_char n] else digits (n div 10) @ [digit_char (n mod 10)])"

declare digits.simps [simp del]

definition show_int :: "int \<Rightarrow> string" where
  "show_int i = (if i < 0 then CHR ''-'' # digits (nat (- i)) else digits (nat i))"

text \<open>\<^verbatim>\<open>x.toFixed(2)\<close> of an amount held in hundredths.\<close>

definition toFixed2 :: "int \<Rightarrow> string" where
  "toFixed2 a =
     (let n = nat \<bar>a\<bar> in
      (if a < 0 then ''-'' else []) @ digits (n div 100) @ ''.''
        @ [digit_char (n mod 100 div 10), digit_char (n mod 10)])"

text \<open>\<^verbatim>\<open>String(v)\<close>, which is also what a template literal and \<^verbatim>\<open>+\<close> on strings apply.\<close>

fun js_String :: "json option \<Rightarrow> string" where
  "js_String None = ''undefined''"
| "js_String (Some JNull) = ''null''"
| "js_String (Some (JBool b)) = (if b then ''true'' else ''false'')"
| "js_String (Some (JNum n)) = show_int n"
| "js_String (Some (JStr s)) = s"
| "js_String (Some (JObj d)) = ''[object Object]''"

text \<open>The element conversion of \<^verbatim>\<open>Array.prototype.join\<close>: \<^verbatim>\<open>null\<close> and \<^verbatim>\<open>undefined\<close> give
  the empty string.\<close>

fun js_join_elem :: "json option \<Rightarrow> string" where
  "js_join_elem None = []"
| "js_join_elem (Some JNull) = []"
| "js_join_elem v = js_String v"

text \<open>\<^verbatim>\<open>s.split(c)\<close> for a one-character separator.\<close>

fun split_on :: "char \<Rightarrow> string \<Rightarrow> string list" where
  "split_on c [] = [[]]"
| "split_on c (x # xs) =
     (if x = c then [] # split_on c xs
      else (case split_on c xs of [] \<Rightarrow> [[x]] | w # ws \<Rightarrow> (x # w) # ws))"

text \<open>\<^verbatim>\<open>a[i]\<close> on an array: \<^verbatim>\<open>undefined\<close> out of range.\<close>

definition nth_opt :: "'a list \<Rightarrow> nat \<Rightarrow> 'a option" where
  "nth_opt xs i = (if i < length xs then Some (xs ! i) else None)"

text \<open>\<^verbatim>\<open>toLowerCase\<close>, \<^verbatim>\<open>toUpperCase\<close> and \<^verbatim>\<open>trim\<close> on ASCII text (the digests are hexadecimal).\<close>

definition lower_char :: "char \<Rightarrow> char" where
  "lower_char c =
     (case map_of (zip ''ABCDEFGHIJKLMNOPQRSTUVWXYZ'' ''abcdefghijklmnopqrstuvwxyz'') c of
        None \<Rightarrow> c
      | Some l \<Rightarrow> l)"

definition upper_char :: "char \<Rightarrow> char" where
  "upper_char c =
     (case map_of (zip ''abcdefghijklmnopqrstuvwxyz'' ''ABCDEFGHIJKLMNOPQRSTUVWXYZ'') c of
        None \<Rightarrow> c
      | Some u \<Rightarrow> u)"

definition toLowerCase :: "string \<Rightarrow> string" where
  "toLowerCase s = map lower_char s"

definition toUpperCase :: "string \<Rightarrow> string" where
  "toUpperCase s = map upper_char s"

definition is_space :: "char \<Rightarrow> bool" where
  "is_space c = ((of_char c :: nat) \<in> {9, 10, 11, 12, 13, 32})"

definition trim :: "string \<Rightarrow> string" where
  "trim s = rev (dropWhile is_space (rev (dropWhile is_space s)))"

text \<open>\<^verbatim>\<open>s.replace(/%20/g, '+')\<close>\<close>

fun replace_pct20 :: "string \<Rightarrow> string" where
  "replace_pct20 (a # b # c # xs) =
     (if a = CHR ''%'' \<and> b = CHR ''2'' \<and> c = CHR ''0'' then CHR ''+'' # replace_pct20 xs
      else a # replace_pct20 (b # c # xs))"
| "replace_pct20 xs = xs"

text \<open>\<^verbatim>\<open>s.slice(0, -1)\<close>\<close>

definition drop_last :: "string \<Rightarrow> string" where
  "drop_last s = butlast s"

subsection \<open>Rows, errors and the environment\<close>

text \<open>The status strings the code writes: \<^verbatim>\<open>'pending'\<close>, \<^verbatim>\<open>'success'\<close>, \<^verbatim>\<open>'failed'\<close> and
  (PayGate only) \<^verbatim>\<open>'cancelled'\<close>.\<close>

datatype pay_status = Pending | Success | Failed | Cancelled

text \<open>\<^verbatim>\<open>orders.status\<close>, the order states of the architecture document.\<close>

datatype order_status = O_pending | O_paid | O_shipped | O_delivered | O_cancelled

datatype gateway = Kora | MTN | Orange | PayGate | PayFast

record payment =
  p_id :: string
  p_order_id :: string
  p_user_id :: string
  p_payment_method :: string
  p_amount :: "int option"
  p_currency :: string
  p_status :: pay_status
  p_gateway_transaction_id :: json
  p_gateway_response :: json
  p_processed_at :: "nat option"
  p_created_at :: nat
  p_updated_at :: nat

text \<open>A joined row of \<^verbatim>\<open>order_items\<close>; \<open>i_product_name\<close> is \<^verbatim>\<open>item.products.name\<close>, and \<open>None\<close>
  when the joined \<^verbatim>\<open>products\<close> is \<^verbatim>\<open>null\<close>.\<close>

record order_item =
  i_quantity :: nat
  i_unit_price :: int
  i_product_name :: "string option"

text \<open>\<open>o_total_price\<close> is the nullable column \<^verbatim>\<open>NUMERIC(12,2)\<close>, held in hundredths (\<open>None\<close>
  is \<^verbatim>\<open>null\<close>); \<open>o_order_items\<close> is the joined array \<^verbatim>\<open>order.order_items\<close>.\<close>

record order =
  o_id :: string
  o_user_id :: string
  o_status :: order_status
  o_payment_status :: pay_status
  o_total_price :: "int option"
  o_order_items :: "order_item list"
  o_updated_at :: nat

text \<open>\<open>u_full_name\<close> is the nullable column \<^verbatim>\<open>full_name TEXT\<close>.\<close>

record user =
  u_id :: string
  u_email :: string
  u_full_name :: "string option"
  u_country :: string
  u_phone_number :: "string option"

record world =
  payments :: "string \<rightharpoonup> payment"
  orders :: "string \<rightharpoonup> order"
  users :: "string \<rightharpoonup> user"
  emails :: "(string \<times> string) list"
  gateway_calls :: "gateway list"

datatype err = ValidationError string | NotFoundError string | Error string | TypeError string

fun message :: "err \<Rightarrow> string" where
  "message (ValidationError m) = m"
| "message (NotFoundError m) = m"
| "message (Error m) = m"
| "message (TypeError m) = m"

datatype response = Ok200 | Bad400 string

text \<open>The message of the \<^verbatim>\<open>TypeError\<close> that reading a property of \<^verbatim>\<open>null\<close> or \<^verbatim>\<open>undefined\<close>
  raises: \<^verbatim>\<open>Cannot read properties of null (reading 'split')\<close>.\<close>

definition cannot_read :: "string \<Rightarrow> string \<Rightarrow> string" where
  "cannot_read v prop =
     ''Cannot read properties of '' @ v @ '' (reading '' @ [CHR 0x27] @ prop @ [CHR 0x27] @ '')''"

text \<open>What a remote gateway answers to a request of \<^verbatim>\<open>initializePayment\<close>, as a
  function of the reference of the attempt: the call fails (network error or non-2xx
  status, with the message the service reads off the error), or it returns: Kora a JSON
  body, PayGate an HTML text, MTN a status code with a body, Orange a JSON body. The token
  endpoints of MTN and Orange answer a token or fail.\<close>

datatype 'a net = NetFail string | NetOk 'a

record env =
  md5_hex :: "string \<Rightarrow> string"
  hmac_sha512_hex :: "string \<Rightarrow> string \<Rightarrow> string"
  json_stringify :: "json \<Rightarrow> string"
  encodeURIComponent :: "string \<Rightarrow> string"
  URLSearchParams :: "(string \<times> string) list \<Rightarrow> string"
  payfast_validate :: "obj \<Rightarrow> bool"
  kora_charges_initialize :: "string \<Rightarrow> obj net"
  paygate_process_trans :: "string \<Rightarrow> string net"
  mtn_token :: "string net"
  mtn_requesttopay :: "string \<Rightarrow> (nat \<times> json) net"
  orange_token :: "string net"
  orange_webpayment :: "string \<Rightarrow> obj net"

text \<open>\<^verbatim>\<open>process.env\<close>, read once by the constructors of the services.\<close>

record config =
  KORA_PAY_WEBHOOK_SECRET :: "string option"
  ORANGE_MONEY_MERCHANT_KEY :: "string option"
  PAYGATE_SECRET_KEY :: "string option"
  PAYFAST_PASSPHRASE :: "string option"
  PAYFAST_MERCHANT_ID :: "string option"
  PAYFAST_MERCHANT_KEY :: "string option"
  PAYFAST_BASE_URL :: "string option"
  FRONTEND_URL :: "string option"
  API_URL :: "string option"
  NODE_ENV :: "string option"

record webhook_update =
  wu_payment_id :: "json option"
  wu_transaction_id :: "json option"
  wu_status :: pay_status
  wu_gateway_response :: obj

record webhook_req =
  headers :: "string \<rightharpoonup> string"
  body :: obj

subsection \<open>Kora Pay: \<^verbatim>\<open>handleWebhook\<close>, \<^verbatim>\<open>verifyWebhookSignature\<close>\<close>

definition kora_verifyWebhookSignature :: "env \<Rightarrow> config \<Rightarrow> obj \<Rightarrow> string option \<Rightarrow> bool" where
  "kora_verifyWebhookSignature env cfg payload signature =
     (case KORA_PAY_WEBHOOK_SECRET cfg of
        None \<Rightarrow> True
      | Some secret \<Rightarrow>
          if secret = [] then True
          else signature = Some (hmac_sha512_hex env secret (json_stringify env (JObj payload))))"

text \<open>\<^verbatim>\<open>event.data.reference\<close>, on which \<^verbatim>\<open>.split('_')\<close> is called: a \<^verbatim>\<open>TypeError\<close> unless
  \<^verbatim>\<open>event.data\<close> is an object whose \<^verbatim>\<open>reference\<close> is a string.\<close>

definition kora_reference :: "obj \<Rightarrow> err + string" where
  "kora_reference event =
     (case prop_of event ''data'' of
        Some (JObj d) \<Rightarrow>
          (case prop_of d ''reference'' of
             Some (JStr r) \<Rightarrow> Inr r
           | None \<Rightarrow> Inl (TypeError (cannot_read ''undefined'' ''split''))
           | Some JNull \<Rightarrow> Inl (TypeError (cannot_read ''null'' ''split''))
           | Some v \<Rightarrow> Inl (TypeError ''event.data.reference.split is not a function''))
      | None \<Rightarrow> Inl (TypeError (cannot_read ''undefined'' ''reference''))
      | Some JNull \<Rightarrow> Inl (TypeError (cannot_read ''null'' ''reference''))
      | Some v \<Rightarrow> Inl (TypeError (cannot_read ''undefined'' ''split'')))"

definition kora_result :: "obj \<Rightarrow> pay_status \<Rightarrow> err + webhook_update option" where
  "kora_result event st =
     (case kora_reference event of
        Inl e \<Rightarrow> Inl e
      | Inr r \<Rightarrow>
          Inr (Some \<lparr>wu_payment_id = map_option JStr (nth_opt (split_on CHR ''_'' r) 1),
                     wu_transaction_id = Some (JStr r),
                     wu_status = st,
                     wu_gateway_response = event\<rparr>))"

definition kora_handleWebhook ::
  "env \<Rightarrow> config \<Rightarrow> obj \<Rightarrow> string option \<Rightarrow> err + webhook_update option" where
  "kora_handleWebhook env cfg payload signature =
     (if \<not> kora_verifyWebhookSignature env cfg payload signature
      then Inl (Error ''Invalid webhook signature'')
      else if prop_of payload ''event'' = Some (JStr ''charge.success'') then kora_result payload Success
      else if prop_of payload ''event'' = Some (JStr ''charge.failed'') then kora_result payload Failed
      else Inr None)"

subsection \<open>MTN Mobile Money: \<^verbatim>\<open>handleWebhook\<close>\<close>

text \<open>The service reads no signature: the parameter is unused in the source.\<close>

definition mtn_handleWebhook :: "obj \<Rightarrow> string option \<Rightarrow> err + webhook_update option" where
  "mtn_handleWebhook payload signature =
     (if prop_of payload ''status'' = Some (JStr ''SUCCESSFUL'') then
        Inr (Some \<lparr>wu_payment_id = prop_of payload ''referenceId'',
                   wu_transaction_id =
                     js_or (prop_of payload ''financialTransactionId'') (prop_of payload ''referenceId''),
                   wu_status = Success,
                   wu_gateway_response = payload\<rparr>)
      else if prop_of payload ''status'' = Some (JStr ''FAILED'') then
        Inr (Some \<lparr>wu_payment_id = prop_of payload ''referenceId'',
                   wu_transaction_id = prop_of payload ''referenceId'',
                   wu_status = Failed,
                   wu_gateway_response = payload\<rparr>)
      else Inr None)"

subsection \<open>Orange Money: \<^verbatim>\<open>handleWebhook\<close>, \<^verbatim>\<open>verifyWebhookSignature\<close>\<close>

definition orange_verifyWebhookSignature :: "env \<Rightarrow> config \<Rightarrow> obj \<Rightarrow> string \<Rightarrow> bool" where
  "orange_verifyWebhookSignature env cfg payload signature =
     (case ORANGE_MONEY_MERCHANT_KEY cfg of
        None \<Rightarrow> True
      | Some k \<Rightarrow>
          if k = [] then True
          else toLowerCase signature
                 = toLowerCase (md5_hex env (json_stringify env (JObj payload) @ k)))"

definition orange_result :: "obj \<Rightarrow> pay_status \<Rightarrow> webhook_update" where
  "orange_result payload st =
     \<lparr>wu_payment_id = prop_of payload ''order_id'',
      wu_transaction_id = js_or (prop_of payload ''txnid'') (prop_of payload ''pay_token''),
      wu_status = st,
      wu_gateway_response = payload\<rparr>"

definition orange_handleWebhook ::
  "env \<Rightarrow> config \<Rightarrow> obj \<Rightarrow> string option \<Rightarrow> err + webhook_update option" where
  "orange_handleWebhook env cfg payload signature =
     (if (case signature of
            None \<Rightarrow> False
          | Some sg \<Rightarrow> sg \<noteq> [] \<and> \<not> orange_verifyWebhookSignature env cfg payload sg)
      then Inl (Error ''Invalid webhook signature'')
      else if prop_of payload ''status'' = Some (JStr ''SUCCESS'') then
        Inr (Some (orange_result payload Success))
      else if prop_of payload ''status'' = Some (JStr ''FAILED'')
              \<or> prop_of payload ''status'' = Some (JStr ''CANCELLED'') then
        Inr (Some (orange_result payload Failed))
      else Inr None)"

subsection \<open>PayGate: \<^verbatim>\<open>handleWebhook\<close>, \<^verbatim>\<open>generateChecksum\<close>, \<^verbatim>\<open>verifyChecksum\<close>\<close>

text \<open>\<^verbatim>\<open>Object.keys(data)\<close> restricted by a test, then \<^verbatim>\<open>.sort()\<close>.\<close>

definition sorted_keys :: "(string \<Rightarrow> bool) \<Rightarrow> obj \<Rightarrow> string list" where
  "sorted_keys keep d = sort (filter keep (remdups (map fst d)))"

definition paygate_generateChecksum :: "env \<Rightarrow> config \<Rightarrow> obj \<Rightarrow> string" where
  "paygate_generateChecksum env cfg d =
     (let sortedKeys = sorted_keys (\<lambda>k. k \<noteq> ''CHECKSUM'') d;
          valueString = concat (map (\<lambda>k. js_join_elem (prop_of d k)) sortedKeys);
          stringToHash = valueString @ js_String (map_option JStr (PAYGATE_SECRET_KEY cfg))
      in toUpperCase (md5_hex env stringToHash))"

definition paygate_verifyChecksum :: "env \<Rightarrow> config \<Rightarrow> obj \<Rightarrow> bool" where
  "paygate_verifyChecksum env cfg d =
     (prop_of d ''CHECKSUM'' = Some (JStr (paygate_generateChecksum env cfg d)))"

definition paygate_status :: "json option \<Rightarrow> pay_status" where
  "paygate_status transactionStatus =
     (if transactionStatus = Some (JStr ''1'') then Success
      else if transactionStatus = Some (JStr ''2'') then Failed
      else if transactionStatus = Some (JStr ''4'') then Cancelled
      else Pending)"

definition paygate_handleWebhook ::
  "env \<Rightarrow> config \<Rightarrow> obj \<Rightarrow> string option \<Rightarrow> err + webhook_update option" where
  "paygate_handleWebhook env cfg payload signature =
     (if \<not> paygate_verifyChecksum env cfg payload then Inl (Error ''Invalid PayGate checksum'')
      else Inr (Some \<lparr>wu_payment_id = prop_of payload ''USER1'',
                      wu_transaction_id = prop_of payload ''PAY_REQUEST_ID'',
                      wu_status = paygate_status (prop_of payload ''TRANSACTION_STATUS''),
                      wu_gateway_response = payload\<rparr>))"

subsection \<open>PayFast: \<^verbatim>\<open>handleWebhook\<close>, \<^verbatim>\<open>generateSignature\<close>, \<^verbatim>\<open>verifySignature\<close>\<close>

definition payfast_keep :: "obj \<Rightarrow> string \<Rightarrow> bool" where
  "payfast_keep d k =
     (k \<noteq> ''signature'' \<and> prop_of d k \<noteq> Some (JStr []) \<and> prop_of d k \<noteq> Some JNull
      \<and> prop_of d k \<noteq> None)"

definition payfast_generateSignature :: "env \<Rightarrow> config \<Rightarrow> obj \<Rightarrow> string" where
  "payfast_generateSignature env cfg d =
     (let sortedKeys = sorted_keys (payfast_keep d) d;
          paramString =
            drop_last (concat (map (\<lambda>k. k @ ''=''
                @ replace_pct20 (encodeURIComponent env (trim (js_String (prop_of d k)))) @ ''&'')
              sortedKeys));
          withPass =
            (case PAYFAST_PASSPHRASE cfg of
               None \<Rightarrow> paramString
             | Some pass \<Rightarrow>
                 if pass = [] then paramString
                 else paramString @ ''&passphrase=''
                        @ replace_pct20 (encodeURIComponent env (trim pass)))
      in md5_hex env withPass)"

text \<open>\<^verbatim>\<open>delete data.signature\<close>: the object that the rest of the handler sees.\<close>

definition delete_signature :: "obj \<Rightarrow> obj" where
  "delete_signature d = filter (\<lambda>kv. fst kv \<noteq> ''signature'') d"

definition payfast_verifySignature :: "env \<Rightarrow> config \<Rightarrow> obj \<Rightarrow> bool" where
  "payfast_verifySignature env cfg d =
     (prop_of d ''signature''
        = Some (JStr (payfast_generateSignature env cfg (delete_signature d))))"

definition payfast_status :: "json option \<Rightarrow> pay_status" where
  "payfast_status paymentStatus =
     (if paymentStatus = Some (JStr ''COMPLETE'') then Success
      else if paymentStatus = Some (JStr ''FAILED'') \<or> paymentStatus = Some (JStr ''CANCELLED'')
      then Failed
      else Pending)"

definition payfast_handleWebhook ::
  "env \<Rightarrow> config \<Rightarrow> obj \<Rightarrow> string option \<Rightarrow> err + webhook_update option" where
  "payfast_handleWebhook env cfg payload signature =
     (if \<not> payfast_verifySignature env cfg payload then Inl (Error ''Invalid PayFast signature'')
      else
        let d = delete_signature payload in
        if \<not> payfast_validate env d then Inl (Error ''Payment validation failed'')
        else Inr (Some \<lparr>wu_payment_id = prop_of d ''custom_str1'',
                        wu_transaction_id =
                          js_or (prop_of d ''pf_payment_id'') (prop_of d ''m_payment_id''),
                        wu_status = payfast_status (prop_of d ''payment_status''),
                        wu_gateway_response = d\<rparr>))"

subsection \<open>\<^verbatim>\<open>POST /payments/webhook\<close>\<close>

text \<open>\<^verbatim>\<open>req.headers['x-signature'] || req.headers['x-kora-signature']\<close>: the value every
  service receives as its \<^verbatim>\<open>signature\<close> argument.\<close>

definition signature_of :: "webhook_req \<Rightarrow> string option" where
  "signature_of req = js_or_str (headers req ''x-signature'') (headers req ''x-kora-signature'')"

text \<open>The chain of \<^verbatim>\<open>if (req.headers[...])\<close> that selects the service.\<close>

definition webhook_source :: "webhook_req \<Rightarrow> gateway option" where
  "webhook_source req =
     (if truthy_str (headers req ''x-kora-signature'') then Some Kora
      else if truthy_str (headers req ''x-mtn-signature'') then Some MTN
      else if truthy_str (headers req ''x-orange-signature'') then Some Orange
      else if truthy_str (headers req ''x-paygate-signature'') then Some PayGate
      else if truthy_str (headers req ''x-payfast-signature'') then Some PayFast
      else None)"

definition handleWebhook ::
  "env \<Rightarrow> config \<Rightarrow> gateway \<Rightarrow> obj \<Rightarrow> string option \<Rightarrow> err + webhook_update option" where
  "handleWebhook env cfg g payload signature =
     (case g of
        Kora \<Rightarrow> kora_handleWebhook env cfg payload signature
      | MTN \<Rightarrow> mtn_handleWebhook payload signature
      | Orange \<Rightarrow> orange_handleWebhook env cfg payload signature
      | PayGate \<Rightarrow> paygate_handleWebhook env cfg payload signature
      | PayFast \<Rightarrow> payfast_handleWebhook env cfg payload signature)"

text \<open>The first statement of the \<^verbatim>\<open>try\<close> block: the selected service handles the body, or
  the route throws for an unknown source.\<close>

definition webhook_dispatch ::
  "env \<Rightarrow> config \<Rightarrow> webhook_req \<Rightarrow> err + webhook_update option" where
  "webhook_dispatch env cfg req =
     (case webhook_source req of
        None \<Rightarrow> Inl (ValidationError ''Unknown webhook source'')
      | Some g \<Rightarrow> handleWebhook env cfg g (body req) (signature_of req))"

text \<open>The update of the \<^verbatim>\<open>payments\<close> row: \<^verbatim>\<open>.update({...}).eq('id', payment_id)\<close>. A property
  whose value is \<^verbatim>\<open>undefined\<close> is not serialised, so that column keeps its value.\<close>

definition updated_payment :: "nat \<Rightarrow> webhook_update \<Rightarrow> payment \<Rightarrow> payment" where
  "updated_payment now u p =
     p\<lparr>p_status := wu_status u,
       p_gateway_transaction_id :=
         (case wu_transaction_id u of None \<Rightarrow> p_gateway_transaction_id p | Some t \<Rightarrow> t),
       p_gateway_response := JObj (wu_gateway_response u),
       p_processed_at := (if wu_status u = Success then Some now else None),
       p_updated_at := now\<rparr>"

text \<open>The update of the \<^verbatim>\<open>orders\<close> row in the success branch; its result is not inspected
  by the handler, so a missing order changes nothing and raises nothing.\<close>

definition mark_order_paid :: "nat \<Rightarrow> string \<Rightarrow> world \<Rightarrow> world" where
  "mark_order_paid now oid w =
     (case orders w oid of
        None \<Rightarrow> w
      | Some ord \<Rightarrow>
          w\<lparr>orders := (orders w)(oid \<mapsto>
               ord\<lparr>o_payment_status := Success, o_status := O_paid, o_updated_at := now\<rparr>)\<rparr>)"

text \<open>The confirmation email, attempted when the order and its joined user row are
  found. The arguments of \<^verbatim>\<open>sendOrderConfirmationEmail\<close> are built inside the \<^verbatim>\<open>try\<close>:
  \<^verbatim>\<open>order.order_items.map(item => ({name: item.products.name, ...}))\<close> raises a \<^verbatim>\<open>TypeError\<close>
  for an item whose \<^verbatim>\<open>products\<close> is \<^verbatim>\<open>null\<close>, which the \<^verbatim>\<open>catch\<close> logs, and the email service
  is then not invoked. An exception of the email service itself is caught too; the log
  \<open>emails\<close> records the address and the order for which the service was invoked.\<close>

definition send_confirmation :: "string \<Rightarrow> world \<Rightarrow> world" where
  "send_confirmation oid w =
     (case orders w oid of
        None \<Rightarrow> w
      | Some ord \<Rightarrow>
          (case users w (o_user_id ord) of
             None \<Rightarrow> w
           | Some usr \<Rightarrow>
               if list_all (\<lambda>item. i_product_name item \<noteq> None) (o_order_items ord)
               then w\<lparr>emails := emails w @ [(u_email usr, o_id ord)]\<rparr>
               else w))"

text \<open>The part of the handler after the service has returned \<open>u\<close>. In the success branch
  the handler ends with \<^verbatim>\<open>await this.processAffiliateCommission(payment.order_id)\<close>; the
  handler is an arrow function of the module, whose \<^verbatim>\<open>this\<close> is the initial
  \<^verbatim>\<open>module.exports\<close> object, and \<^verbatim>\<open>processAffiliateCommission\<close> is a function declaration
  of the module, not a property of that object: the call raises a \<^verbatim>\<open>TypeError\<close>, which the
  enclosing \<^verbatim>\<open>catch\<close> turns into the 400 response, after the rows have been written.\<close>

definition reconcile :: "nat \<Rightarrow> webhook_update \<Rightarrow> world \<Rightarrow> response \<times> world" where
  "reconcile now u w =
     (let key = js_String (wu_payment_id u) in
      case payments w key of
        None \<Rightarrow> (Bad400 ''Failed to update payment record'', w)
      | Some p \<Rightarrow>
          let w1 = w\<lparr>payments := (payments w)(key \<mapsto> updated_payment now u p)\<rparr> in
          if wu_status u = Success then
            (Bad400 ''this.processAffiliateCommission is not a function'',
             send_confirmation (p_order_id p) (mark_order_paid now (p_order_id p) w1))
          else (Ok200, w1))"

definition webhook :: "env \<Rightarrow> config \<Rightarrow> nat \<Rightarrow> webhook_req \<Rightarrow> world \<Rightarrow> response \<times> world" where
  "webhook env cfg now req w =
     (case webhook_dispatch env cfg req of
        Inl e \<Rightarrow> (Bad400 (message e), w)
      | Inr None \<Rightarrow> (Bad400 (cannot_read ''null'' ''status''), w)
      | Inr (Some u) \<Rightarrow> reconcile now u w)"

subsection \<open>\<^verbatim>\<open>initializePayment\<close> of the five services\<close>

text \<open>What a service returns to the route. The field \<^verbatim>\<open>instructions\<close>, a fixed sentence per
  service, is left out. The body of the outgoing request is not part of the model (the
  answer of the gateway is a function of the reference), except for PayFast, whose
  request is the stored \<^verbatim>\<open>gateway_response\<close>.\<close>

record init_result =
  ir_payment_id :: string
  ir_transaction_id :: "json option"
  ir_payment_url :: "json option"
  ir_currency :: string
  ir_expires_at :: nat
  ir_gateway_response :: json

text \<open>\<^verbatim>\<open>`mg_${order.id}_${Date.now()}`\<close>\<close>

definition reference_of :: "order \<Rightarrow> nat \<Rightarrow> string" where
  "reference_of ord now = ''mg_'' @ o_id ord @ ''_'' @ digits now"

text \<open>\<^verbatim>\<open>d.k\<close> where \<^verbatim>\<open>d\<close> is itself a property value: \<^verbatim>\<open>undefined\<close> unless \<^verbatim>\<open>d\<close> is an object
  (the callers have tested that \<^verbatim>\<open>d\<close> is truthy).\<close>

definition sub_prop :: "json option \<Rightarrow> string \<Rightarrow> json option" where
  "sub_prop d k = (case d of Some (JObj x) \<Rightarrow> prop_of x k | _ \<Rightarrow> None)"

text \<open>\<^verbatim>\<open>result.message || 'Payment initialization failed'\<close> as the message of an \<^verbatim>\<open>Error\<close>.\<close>

definition message_or_default :: "obj \<Rightarrow> string" where
  "message_or_default result =
     (if truthy (prop_of result ''message'') then js_String (prop_of result ''message'')
      else ''Payment initialization failed'')"

definition kora_getCurrency :: "string \<Rightarrow> string" where
  "kora_getCurrency country =
     (if country = ''ZA'' then ''ZAR'' else if country = ''NG'' then ''NGN''
      else if country = ''KE'' then ''KES'' else if country = ''GH'' then ''GHS''
      else if country = ''CM'' then ''XAF'' else ''USD'')"

definition kora_initializePayment :: "env \<Rightarrow> nat \<Rightarrow> order \<Rightarrow> user \<Rightarrow> err + init_result" where
  "kora_initializePayment env now ord usr =
     (let reference = reference_of ord now in
      case kora_charges_initialize env reference of
        NetFail msg \<Rightarrow> Inl (Error (''Kora Pay error: '' @ msg))
      | NetOk result \<Rightarrow>
          if truthy (prop_of result ''status'') \<and> truthy (prop_of result ''data'') then
            Inr \<lparr>ir_payment_id = reference,
                 ir_transaction_id = sub_prop (prop_of result ''data'') ''reference'',
                 ir_payment_url = sub_prop (prop_of result ''data'') ''checkout_url'',
                 ir_currency = kora_getCurrency (u_country usr),
                 ir_expires_at = now + 30 * 60 * 1000,
                 ir_gateway_response = JObj result\<rparr>
          else Inl (Error (''Kora Pay error: '' @ message_or_default result)))"

definition mtn_getCurrency :: "string \<Rightarrow> string" where
  "mtn_getCurrency country =
     (if country = ''CM'' then ''XAF'' else if country = ''GH'' then ''GHS''
      else if country = ''UG'' then ''UGX'' else if country = ''RW'' then ''RWF''
      else if country = ''ZM'' then ''ZMW'' else ''XAF'')"

text \<open>After the token, the request is built: \<^verbatim>\<open>amount: order.total_price.toString()\<close> raises a
  \<^verbatim>\<open>TypeError\<close> on a \<^verbatim>\<open>null\<close> total, which the \<^verbatim>\<open>catch\<close> of the service rethrows.\<close>

definition mtn_initializePayment :: "env \<Rightarrow> nat \<Rightarrow> order \<Rightarrow> user \<Rightarrow> err + init_result" where
  "mtn_initializePayment env now ord usr =
     (case mtn_token env of
        NetFail msg \<Rightarrow> Inl (Error ''MTN MoMo error: Failed to get MTN access token'')
      | NetOk accessToken \<Rightarrow>
          (case o_total_price ord of
             None \<Rightarrow> Inl (Error (''MTN MoMo error: '' @ cannot_read ''null'' ''toString''))
           | Some total_price \<Rightarrow>
              (let externalId = reference_of ord now in
              (case mtn_requesttopay env externalId of
                NetFail msg \<Rightarrow> Inl (Error (''MTN MoMo error: '' @ msg))
              | NetOk (code, data) \<Rightarrow>
                  if code = 202 then
                    Inr \<lparr>ir_payment_id = externalId,
                         ir_transaction_id = Some (JStr externalId),
                         ir_payment_url = Some JNull,
                         ir_currency = mtn_getCurrency (u_country usr),
                         ir_expires_at = now + 15 * 60 * 1000,
                         ir_gateway_response = data\<rparr>
                  else Inl (Error ''MTN MoMo error: Payment initialization failed'')))))"

definition orange_getCurrency :: "string \<Rightarrow> string" where
  "orange_getCurrency country =
     (if country = ''CM'' then ''XAF''
      else if country \<in> {''SN'', ''ML'', ''BF'', ''CI'', ''NE''} then ''XOF''
      else if country = ''MG'' then ''MGA'' else ''XAF'')"

definition orange_isAvailableInCountry :: "string \<Rightarrow> bool" where
  "orange_isAvailableInCountry country =
     (country \<in> set [''CM'', ''SN'', ''ML'', ''BF'', ''CI'', ''NE'', ''MG''])"

definition orange_initializePayment :: "env \<Rightarrow> nat \<Rightarrow> order \<Rightarrow> user \<Rightarrow> err + init_result" where
  "orange_initializePayment env now ord usr =
     (case orange_token env of
        NetFail msg \<Rightarrow> Inl (Error ''Orange Money error: Failed to get Orange Money access token'')
      | NetOk accessToken \<Rightarrow>
          (let order_id = reference_of ord now in
          (case orange_webpayment env order_id of
            NetFail msg \<Rightarrow> Inl (Error (''Orange Money error: '' @ msg))
          | NetOk result \<Rightarrow>
              if truthy (prop_of result ''status'') \<and> truthy (prop_of result ''pay_token'') then
                Inr \<lparr>ir_payment_id = order_id,
                     ir_transaction_id = prop_of result ''pay_token'',
                     ir_payment_url = prop_of result ''payment_url'',
                     ir_currency = orange_getCurrency (u_country usr),
                     ir_expires_at = now + 30 * 60 * 1000,
                     ir_gateway_response = JObj result\<rparr>
              else Inl (Error (''Orange Money error: '' @ message_or_default result)))))"

text \<open>\<^verbatim>\<open>responseText.match(/PAY_REQUEST_ID=([^&"]+)/)\<close>: the first place where the text
  \<^verbatim>\<open>PAY_REQUEST_ID=\<close> is followed by at least one character other than \<^verbatim>\<open>&\<close> and the
  double quote; the group is the longest run of such characters.\<close>

fun match_PAY_REQUEST_ID :: "string \<Rightarrow> string option" where
  "match_PAY_REQUEST_ID [] = None"
| "match_PAY_REQUEST_ID (x # xs) =
     (let v = takeWhile (\<lambda>c. c \<noteq> CHR ''&'' \<and> c \<noteq> CHR 0x22) (drop 15 (x # xs)) in
      if take 15 (x # xs) = ''PAY_REQUEST_ID='' \<and> v \<noteq> [] then Some v
      else match_PAY_REQUEST_ID xs)"

definition paygate_isAvailableInCountry :: "string \<Rightarrow> bool" where
  "paygate_isAvailableInCountry country = (country = ''ZA'')"

definition paygate_initializePayment :: "env \<Rightarrow> nat \<Rightarrow> order \<Rightarrow> user \<Rightarrow> err + init_result" where
  "paygate_initializePayment env now ord usr =
     (let reference = reference_of ord now in
      case paygate_process_trans env reference of
        NetFail msg \<Rightarrow> Inl (Error (''PayGate error: '' @ msg))
      | NetOk responseText \<Rightarrow>
          (case match_PAY_REQUEST_ID responseText of
             Some payRequestId \<Rightarrow>
               Inr \<lparr>ir_payment_id = reference,
                    ir_transaction_id = Some (JStr payRequestId),
                    ir_payment_url = Some (JStr
                      (''https://secure.paygate.co.za/payweb3/process.trans?PAY_REQUEST_ID=''
                       @ payRequestId)),
                    ir_currency = ''ZAR'',
                    ir_expires_at = now + 30 * 60 * 1000,
                    ir_gateway_response = JObj [(''PAY_REQUEST_ID'', JStr payRequestId)]\<rparr>
           | None \<Rightarrow> Inl (Error ''PayGate error: Failed to get payment URL from PayGate'')))"

text \<open>PayFast builds its request locally and calls no gateway. The object literal
  \<^verbatim>\<open>paymentData\<close> is a list of properties whose value may be \<^verbatim>\<open>undefined\<close> (an unset
  environment variable): \<^verbatim>\<open>URLSearchParams\<close> writes every property, converted by
  \<^verbatim>\<open>String\<close>; \<^verbatim>\<open>generateSignature\<close> filters the undefined ones out, and so does the JSON that
  is stored as \<^verbatim>\<open>gateway_response\<close>.\<close>

definition env_str :: "string option \<Rightarrow> string" where
  "env_str v = js_String (map_option JStr v)"

fun defined_props :: "(string \<times> json option) list \<Rightarrow> obj" where
  "defined_props [] = []"
| "defined_props ((k, None) # ps) = defined_props ps"
| "defined_props ((k, Some v) # ps) = (k, v) # defined_props ps"

definition string_props :: "(string \<times> json option) list \<Rightarrow> (string \<times> string) list" where
  "string_props ps = map (\<lambda>kv. (fst kv, js_String (snd kv))) ps"

fun join_with :: "string \<Rightarrow> string list \<Rightarrow> string" where
  "join_with sep [] = []"
| "join_with sep [x] = x"
| "join_with sep (x # y # ys) = x @ sep @ join_with sep (y # ys)"

text \<open>\<^verbatim>\<open>`Mallgram Order #${order.id.slice(-8).toUpperCase()}`\<close>\<close>

definition order_label :: "order \<Rightarrow> string" where
  "order_label ord = ''Mallgram Order #'' @ toUpperCase (drop (length (o_id ord) - 8) (o_id ord))"

definition payfast_isAvailableInCountry :: "string \<Rightarrow> bool" where
  "payfast_isAvailableInCountry country = (country = ''ZA'')"

text \<open>The object literal, for a user name \<open>full_name\<close> and a total \<open>total_price\<close> that are not
  \<^verbatim>\<open>null\<close>.\<close>

definition payfast_paymentData ::
  "config \<Rightarrow> nat \<Rightarrow> order \<Rightarrow> user \<Rightarrow> string option \<Rightarrow> string \<Rightarrow> int
     \<Rightarrow> (string \<times> json option) list" where
  "payfast_paymentData cfg now ord usr returnUrl full_name total_price =
     (let names = split_on CHR '' '' full_name in
      [(''merchant_id'', map_option JStr (PAYFAST_MERCHANT_ID cfg)),
       (''merchant_key'', map_option JStr (PAYFAST_MERCHANT_KEY cfg)),
       (''return_url'', Some (JStr (if truthy_str returnUrl then env_str returnUrl
                                    else env_str (FRONTEND_URL cfg) @ ''/payment/success''))),
       (''cancel_url'', Some (JStr (env_str (FRONTEND_URL cfg) @ ''/payment/cancel''))),
       (''notify_url'', Some (JStr (env_str (API_URL cfg) @ ''/payments/webhook''))),
       (''name_first'', Some (JStr (case names of
                                      [] \<Rightarrow> full_name
                                    | n # ns \<Rightarrow> if n \<noteq> [] then n else full_name))),
       (''name_last'', Some (JStr (case names of [] \<Rightarrow> [] | n # ns \<Rightarrow> join_with '' '' ns))),
       (''email_address'', Some (JStr (u_email usr))),
       (''m_payment_id'', Some (JStr (reference_of ord now))),
       (''amount'', Some (JStr (toFixed2 total_price))),
       (''item_name'', Some (JStr (order_label ord))),
       (''item_description'', Some (JStr (''Payment for Mallgram order containing ''
           @ digits (if length (o_order_items ord) = 0 then 1 else length (o_order_items ord))
           @ '' items''))),
       (''custom_str1'', Some (JStr (o_id ord))),
       (''custom_str2'', Some (JStr (u_id usr))),
       (''custom_str3'', Some (JStr ''mallgram'')),
       (''email_confirmation'', Some (JStr ''1'')),
       (''confirmation_address'', Some (JStr (u_email usr)))])"

text \<open>The body of the service is inside \<^verbatim>\<open>try\<close>; the \<^verbatim>\<open>catch\<close> rethrows
  \<^verbatim>\<open>PayFast error: ${error.message}\<close>. The literal is evaluated in order, so
  \<^verbatim>\<open>user.full_name.split(' ')\<close> raises first on a \<^verbatim>\<open>null\<close> name and
  \<^verbatim>\<open>order.total_price.toFixed(2)\<close> next on a \<^verbatim>\<open>null\<close> total. The signature is computed while
  the passphrase is a property of the object (when configured); the passphrase is then
  deleted and the signature is the last property.\<close>

definition payfast_initializePayment ::
  "env \<Rightarrow> config \<Rightarrow> nat \<Rightarrow> order \<Rightarrow> user \<Rightarrow> string option \<Rightarrow> err + init_result" where
  "payfast_initializePayment env cfg now ord usr returnUrl =
     (case u_full_name usr of
        None \<Rightarrow> Inl (Error (''PayFast error: '' @ cannot_read ''null'' ''split''))
      | Some full_name \<Rightarrow>
          (case o_total_price ord of
             None \<Rightarrow> Inl (Error (''PayFast error: '' @ cannot_read ''null'' ''toFixed''))
           | Some total_price \<Rightarrow>
               (let reference = reference_of ord now;
                    paymentData = payfast_paymentData cfg now ord usr returnUrl full_name total_price;
                    withPass = paymentData
                       @ (if truthy_str (PAYFAST_PASSPHRASE cfg)
                          then [(''passphrase'', map_option JStr (PAYFAST_PASSPHRASE cfg))]
                          else []);
                    signed = paymentData
                       @ [(''signature'', Some (JStr
                            (payfast_generateSignature env cfg (defined_props withPass))))];
                    paymentUrl = (if NODE_ENV cfg \<noteq> Some ''production''
                                  then ''https://sandbox.payfast.co.za/eng/process''
                                  else if truthy_str (PAYFAST_BASE_URL cfg)
                                  then env_str (PAYFAST_BASE_URL cfg)
                                  else ''https://www.payfast.co.za/eng/process'')
                in Inr \<lparr>ir_payment_id = reference,
                        ir_transaction_id = Some (JStr reference),
                        ir_payment_url = Some (JStr
                          (paymentUrl @ ''?'' @ URLSearchParams env (string_props signed))),
                        ir_currency = ''ZAR'',
                        ir_expires_at = now + 30 * 60 * 1000,
                        ir_gateway_response = JObj (defined_props signed)\<rparr>)))"

subsection \<open>\<^verbatim>\<open>GET /payments/methods\<close> and \<^verbatim>\<open>POST /payments/initialize\<close>\<close>

record method_descr =
  m_id :: string
  m_name :: string
  m_type :: string
  m_description :: string
  m_fees :: string

text \<open>The table \<^verbatim>\<open>paymentMethods\<close> of the route, read at a given \<^verbatim>\<open>country\<close>:
  \<^verbatim>\<open>paymentMethods[country] || []\<close> (the \<^verbatim>\<open>logo\<close> paths are left out).\<close>

definition paymentMethods :: "string \<Rightarrow> method_descr list" where
  "paymentMethods country =
     (if country = ''ZA'' then
        [\<lparr>m_id = ''paygate'', m_name = ''PayGate'', m_type = ''card'',
          m_description = ''Credit/Debit Cards, EFT'', m_fees = ''2.9% + R2.00''\<rparr>,
         \<lparr>m_id = ''payfast'', m_name = ''PayFast'', m_type = ''card'',
          m_description = ''Credit/Debit Cards, EFT, SnapScan'', m_fees = ''2.9% + R2.00''\<rparr>,
         \<lparr>m_id = ''kora'', m_name = ''Kora Pay'', m_type = ''card'',
          m_description = ''All major cards'', m_fees = ''3.5%''\<rparr>]
      else if country = ''CM'' then
        [\<lparr>m_id = ''orange'', m_name = ''Orange Money'', m_type = ''mobile_money'',
          m_description = ''Mobile Money'', m_fees = ''1.5%''\<rparr>,
         \<lparr>m_id = ''mtn'', m_name = ''MTN Mobile Money'', m_type = ''mobile_money'',
          m_description = ''Mobile Money'', m_fees = ''1.5%''\<rparr>,
         \<lparr>m_id = ''kora'', m_name = ''Kora Pay'', m_type = ''card'',
          m_description = ''Credit/Debit Cards'', m_fees = ''3.5%''\<rparr>]
      else [])"

text \<open>Whether a (method, country) pair is in that table.\<close>

definition in_availability_table :: "string \<Rightarrow> string \<Rightarrow> bool" where
  "in_availability_table method country = (method \<in> set (map m_id (paymentMethods country)))"

record init_req =
  order_id :: "string option"
  payment_method :: "string option"
  return_url :: "string option"
  phone_number :: "string option"

record init_response =
  r_payment_id :: string
  r_payment_url :: "json option"
  r_payment_method :: string
  r_amount :: "int option"
  r_currency :: string
  r_expires_at :: nat

text \<open>The \<^verbatim>\<open>switch (payment_method)\<close> of the route: the service a method id selects.\<close>

definition gateway_of :: "string \<Rightarrow> gateway option" where
  "gateway_of m =
     (if m = ''kora'' then Some Kora
      else if m = ''mtn'' then Some MTN
      else if m = ''orange'' then Some Orange
      else if m = ''paygate'' then Some PayGate
      else if m = ''payfast'' then Some PayFast
      else None)"

definition initializePayment ::
  "env \<Rightarrow> config \<Rightarrow> nat \<Rightarrow> gateway \<Rightarrow> order \<Rightarrow> user \<Rightarrow> init_req \<Rightarrow> err + init_result" where
  "initializePayment env cfg now g ord usr req =
     (case g of
        Kora \<Rightarrow> kora_initializePayment env now ord usr
      | MTN \<Rightarrow> mtn_initializePayment env now ord usr
      | Orange \<Rightarrow> orange_initializePayment env now ord usr
      | PayGate \<Rightarrow> paygate_initializePayment env now ord usr
      | PayFast \<Rightarrow> payfast_initializePayment env cfg now ord usr (return_url req))"

text \<open>The insert into \<^verbatim>\<open>payments\<close>; \<^verbatim>\<open>id\<close> is the primary key, so a row that exists under
  the same id makes the insert fail.\<close>

definition new_payment :: "nat \<Rightarrow> string \<Rightarrow> order \<Rightarrow> user \<Rightarrow> init_result \<Rightarrow> payment" where
  "new_payment now m ord usr r =
     \<lparr>p_id = ir_payment_id r, p_order_id = o_id ord, p_user_id = u_id usr,
      p_payment_method = m, p_amount = o_total_price ord, p_currency = ir_currency r,
      p_status = Pending,
      p_gateway_transaction_id = (case ir_transaction_id r of None \<Rightarrow> JNull | Some t \<Rightarrow> t),
      p_gateway_response = ir_gateway_response r,
      p_processed_at = None, p_created_at = now, p_updated_at = now\<rparr>"

text \<open>The body of the \<^verbatim>\<open>try\<close> block: the switch, the call of the service (logged in
  \<open>gateway_calls\<close>), the insert and the response.\<close>

definition try_initialize ::
  "env \<Rightarrow> config \<Rightarrow> nat \<Rightarrow> user \<Rightarrow> init_req \<Rightarrow> string \<Rightarrow> order \<Rightarrow> world
     \<Rightarrow> (err + init_response) \<times> world" where
  "try_initialize env cfg now usr req m ord w =
     (case gateway_of m of
        None \<Rightarrow> (Inl (ValidationError ''Unsupported payment method''), w)
      | Some g \<Rightarrow>
          (let w1 = w\<lparr>gateway_calls := gateway_calls w @ [g]\<rparr> in
          (case initializePayment env cfg now g ord usr req of
            Inl e \<Rightarrow> (Inl e, w1)
          | Inr r \<Rightarrow>
              if payments w1 (ir_payment_id r) \<noteq> None
              then (Inl (Error ''Payment initialization failed''), w1)
              else
                (Inr \<lparr>r_payment_id = ir_payment_id r, r_payment_url = ir_payment_url r,
                      r_payment_method = m, r_amount = o_total_price ord,
                      r_currency = ir_currency r, r_expires_at = ir_expires_at r\<rparr>,
                 w1\<lparr>payments := (payments w1)(ir_payment_id r \<mapsto> new_payment now m ord usr r)\<rparr>))))"

text \<open>The order selected by \<^verbatim>\<open>.eq('id', order_id).eq('user_id', req.user.id).single()\<close>.\<close>

definition find_order :: "world \<Rightarrow> string \<Rightarrow> user \<Rightarrow> order option" where
  "find_order w oid usr =
     (case orders w oid of
        None \<Rightarrow> None
      | Some ord \<Rightarrow> if o_user_id ord = u_id usr then Some ord else None)"

definition initialize ::
  "env \<Rightarrow> config \<Rightarrow> nat \<Rightarrow> user \<Rightarrow> init_req \<Rightarrow> world \<Rightarrow> (err + init_response) \<times> world" where
  "initialize env cfg now usr req w =
     (case (order_id req, payment_method req) of
        (Some oid, Some m) \<Rightarrow>
          if oid = [] \<or> m = []
          then (Inl (ValidationError ''Order ID and payment method are required''), w)
          else
            (case find_order w oid usr of
               None \<Rightarrow> (Inl (NotFoundError ''Order not found''), w)
             | Some ord \<Rightarrow>
                 if o_payment_status ord \<noteq> Pending
                 then (Inl (ValidationError ''Order payment has already been processed''), w)
                 else if m \<in> set [''mtn'', ''orange''] \<and> \<not> truthy_str (phone_number req)
                 then (Inl (ValidationError
                         ''Phone number is required for mobile money payments''), w)
                 else
                   (case try_initialize env cfg now usr req m ord w of
                      (Inl e, w') \<Rightarrow>
                        (Inl (Error (''Payment initialization failed: '' @ message e)), w')
                    | (Inr r, w') \<Rightarrow> (Inr r, w')))
      | _ \<Rightarrow> (Inl (ValidationError ''Order ID and payment method are required''), w))"

subsection \<open>The error handler: what reaches the caller of \<^verbatim>\<open>/initialize\<close>\<close>

text \<open>An exception that leaves the route handler is passed to \<^verbatim>\<open>errorHandler\<close>
  (\<^verbatim>\<open>middleware/errorHandler.js\<close>). \<^verbatim>\<open>ValidationError\<close> and \<^verbatim>\<open>NotFoundError\<close> are operational
  errors with their own status and code; a plain \<^verbatim>\<open>Error\<close> (and a \<^verbatim>\<open>TypeError\<close>) has no
  status, so the response is 500 with code \<^verbatim>\<open>INTERNAL_ERROR\<close>, and it is not operational, so
  \<^verbatim>\<open>formatErrorResponse\<close> replaces its message when \<^verbatim>\<open>NODE_ENV\<close> is \<^verbatim>\<open>production\<close>. None of
  the errors of the route is rewritten by \<^verbatim>\<open>handleKnownErrors\<close> (they carry no \<^verbatim>\<open>code\<close>, no
  \<^verbatim>\<open>response\<close>, and their \<^verbatim>\<open>name\<close> is \<^verbatim>\<open>Error\<close>). The fields \<^verbatim>\<open>timestamp\<close>, \<^verbatim>\<open>path\<close> and \<^verbatim>\<open>method\<close>
  of the body, and the debugging fields added in development, are left out.\<close>

record error_response =
  er_status :: nat
  er_message :: string
  er_code :: string

text \<open>\<^verbatim>\<open>error.message || 'An unexpected error occurred'\<close>\<close>

definition message_or_unexpected :: "string \<Rightarrow> string" where
  "message_or_unexpected m = (if m = [] then ''An unexpected error occurred'' else m)"

definition internal_error :: "config \<Rightarrow> string \<Rightarrow> error_response" where
  "internal_error cfg m =
     \<lparr>er_status = 500,
      er_message = (if NODE_ENV cfg = Some ''production''
                    then ''An internal server error occurred'' else message_or_unexpected m),
      er_code = ''INTERNAL_ERROR''\<rparr>"

fun errorHandler :: "config \<Rightarrow> err \<Rightarrow> error_response" where
  "errorHandler cfg (ValidationError m) =
     \<lparr>er_status = 400, er_message = message_or_unexpected m, er_code = ''VALIDATION_ERROR''\<rparr>"
| "errorHandler cfg (NotFoundError m) =
     \<lparr>er_status = 404, er_message = message_or_unexpected m, er_code = ''NOT_FOUND''\<rparr>"
| "errorHandler cfg (Error m) = internal_error cfg m"
| "errorHandler cfg (TypeError m) = internal_error cfg m"

text \<open>The response of \<^verbatim>\<open>POST /payments/initialize\<close> as the caller receives it.\<close>

definition initialize_response ::
  "env \<Rightarrow> config \<Rightarrow> nat \<Rightarrow> user \<Rightarrow> init_req \<Rightarrow> world
     \<Rightarrow> (error_response + init_response) \<times> world" where
  "initialize_response env cfg now usr req w =
     (case initialize env cfg now usr req w of
        (Inl e, w') \<Rightarrow> (Inl (errorHandler cfg e), w')
      | (Inr r, w') \<Rightarrow> (Inr r, w'))"

subsection \<open>A webhook that echoes an attempt\<close>

text \<open>Each service stores identifiers of the attempt in the outgoing request, and reads
  them back from the notification: PayFast sends \<^verbatim>\<open>custom_str1: order.id\<close> and
  \<^verbatim>\<open>m_payment_id: reference\<close>, PayGate sends \<^verbatim>\<open>USER1: order.id\<close> and \<^verbatim>\<open>REFERENCE: reference\<close>,
  Kora sends \<^verbatim>\<open>reference\<close>, MTN sends the reference as \<^verbatim>\<open>X-Reference-Id\<close> and
  \<^verbatim>\<open>externalId\<close>, Orange sends it as \<^verbatim>\<open>order_id\<close>. A notification echoes the attempt
  made for \<open>ord\<close> at \<open>now\<close> when it carries these values in the fields that
  \<^verbatim>\<open>handleWebhook\<close> reads.\<close>

definition echoes :: "gateway \<Rightarrow> order \<Rightarrow> nat \<Rightarrow> obj \<Rightarrow> bool" where
  "echoes g ord now d =
     (case g of
        PayFast \<Rightarrow> prop_of d ''custom_str1'' = Some (JStr (o_id ord))
                   \<and> prop_of d ''m_payment_id'' = Some (JStr (reference_of ord now))
      | PayGate \<Rightarrow> prop_of d ''USER1'' = Some (JStr (o_id ord))
                   \<and> prop_of d ''REFERENCE'' = Some (JStr (reference_of ord now))
      | Kora \<Rightarrow> kora_reference d = Inr (reference_of ord now)
      | MTN \<Rightarrow> prop_of d ''referenceId'' = Some (JStr (reference_of ord now))
      | Orange \<Rightarrow> prop_of d ''order_id'' = Some (JStr (reference_of ord now)))"

subsection \<open>Concrete data\<close>

text \<open>An environment whose digests are constant functions and whose gateways accept every
  request, a configuration with every secret set, and a store with one user, one
  pending order and (in \<open>ex_world1\<close>) one pending payment of that order. The theorems
  below are proved for every environment; these values instantiate them.\<close>

definition ex_env :: env where
  "ex_env =
     \<lparr>md5_hex = (\<lambda>s. ''0cc175b9''),
      hmac_sha512_hex = (\<lambda>k s. ''9f86d081''),
      json_stringify = (\<lambda>j. ''{}''),
      encodeURIComponent = (\<lambda>s. s),
      URLSearchParams = (\<lambda>ps. ''q''),
      payfast_validate = (\<lambda>d. True),
      kora_charges_initialize = (\<lambda>r. NetOk [(''status'', JBool True),
         (''data'', JObj [(''reference'', JStr r),
                          (''checkout_url'', JStr ''https://checkout.example/pay'')])]),
      paygate_process_trans = (\<lambda>r. NetOk ''PAY_REQUEST_ID=23B785AE&REFERENCE=r''),
      mtn_token = NetOk ''token'',
      mtn_requesttopay = (\<lambda>r. NetOk (202, JNull)),
      orange_token = NetOk ''token'',
      orange_webpayment = (\<lambda>r. NetOk [(''status'', JNum 201), (''pay_token'', JStr ''tk1''),
         (''payment_url'', JStr ''https://webpayment.example/tk1'')])\<rparr>"

definition ex_cfg :: config where
  "ex_cfg =
     \<lparr>KORA_PAY_WEBHOOK_SECRET = Some ''whsec'',
      ORANGE_MONEY_MERCHANT_KEY = Some ''omkey'',
      PAYGATE_SECRET_KEY = Some ''secret'',
      PAYFAST_PASSPHRASE = Some ''phrase'',
      PAYFAST_MERCHANT_ID = Some ''10000100'',
      PAYFAST_MERCHANT_KEY = Some ''46f0cd69'',
      PAYFAST_BASE_URL = None,
      FRONTEND_URL = Some ''https://shop.example'',
      API_URL = Some ''https://api.example'',
      NODE_ENV = Some ''production''\<rparr>"

definition ex_user :: user where
  "ex_user = \<lparr>u_id = ''u1'', u_email = ''ada@example.com'', u_full_name = Some ''Ada Obi'',
               u_country = ''ZA'', u_phone_number = Some ''0820000000''\<rparr>"

definition ex_order :: order where
  "ex_order = \<lparr>o_id = ''o1'', o_user_id = ''u1'', o_status = O_pending,
                o_payment_status = Pending, o_total_price = Some 100000,
                o_order_items =
                  [\<lparr>i_quantity = 1, i_unit_price = 60000, i_product_name = Some ''Kettle''\<rparr>,
                   \<lparr>i_quantity = 2, i_unit_price = 20000, i_product_name = Some ''Mug''\<rparr>],
                o_updated_at = 0\<rparr>"

definition ex_payment :: payment where
  "ex_payment = \<lparr>p_id = ''mg_o1_1700'', p_order_id = ''o1'', p_user_id = ''u1'',
                  p_payment_method = ''mtn'', p_amount = Some 100000, p_currency = ''XAF'',
                  p_status = Pending, p_gateway_transaction_id = JStr ''mg_o1_1700'',
                  p_gateway_response = JNull, p_processed_at = None, p_created_at = 1700,
                  p_updated_at = 1700\<rparr>"

definition ex_world0 :: world where
  "ex_world0 = \<lparr>payments = Map.empty, orders = [''o1'' \<mapsto> ex_order],
                 users = [''u1'' \<mapsto> ex_user], emails = [], gateway_calls = []\<rparr>"

definition ex_world1 :: world where
  "ex_world1 = ex_world0\<lparr>payments := [''mg_o1_1700'' \<mapsto> ex_payment]\<rparr>"

text \<open>The same configuration outside production; an environment in which Kora rejects
  the charge with a text of its own; a user of country \<^verbatim>\<open>ZA\<close> whose \<^verbatim>\<open>full_name\<close> is \<^verbatim>\<open>null\<close>.\<close>

definition ex_cfg_dev :: config where
  "ex_cfg_dev = ex_cfg\<lparr>NODE_ENV := Some ''development''\<rparr>"

definition ex_env_kora_rejects :: env where
  "ex_env_kora_rejects =
     ex_env\<lparr>kora_charges_initialize := (\<lambda>r. NetFail ''Merchant account 4411 is suspended'')\<rparr>"

definition ex_user_unnamed :: user where
  "ex_user_unnamed = ex_user\<lparr>u_full_name := None\<rparr>"

text \<open>An order whose identifier contains an underscore, and the Kora notification that
  echoes the attempt made for it at 1700.\<close>

definition ex_order_underscore :: order where
  "ex_order_underscore = ex_order\<lparr>o_id := ''a_b''\<rparr>"

definition kora_underscore_req :: webhook_req where
  "kora_underscore_req =
     \<lparr>headers = [''x-kora-signature'' \<mapsto> ''9f86d081''],
      body = [(''event'', JStr ''charge.success''),
              (''data'', JObj [(''reference'', JStr ''mg_a_b_1700'')])]\<rparr>"

text \<open>An environment in which the token endpoint of MTN is unreachable, and an order of
  the same user that has been paid.\<close>

definition ex_env_down :: env where
  "ex_env_down = ex_env\<lparr>mtn_token := NetFail ''timeout of 10000ms exceeded''\<rparr>"

definition ex_paid_order :: order where
  "ex_paid_order = ex_order\<lparr>o_payment_status := Success, o_status := O_paid\<rparr>"

definition ex_world_paid_order :: world where
  "ex_world_paid_order = ex_world0\<lparr>orders := [''o1'' \<mapsto> ex_paid_order]\<rparr>"

definition init_req_of :: "string \<Rightarrow> init_req" where
  "init_req_of m = \<lparr>order_id = Some ''o1'', payment_method = Some m, return_url = None,
                     phone_number = Some ''0820000000''\<rparr>"

text \<open>The store after \<^verbatim>\<open>/initialize\<close> with PayFast for the order \<^verbatim>\<open>o1\<close> at time 1700.\<close>

definition ex_world_payfast :: world where
  "ex_world_payfast =
     snd (initialize ex_env ex_cfg 1700 ex_user (init_req_of ''payfast'') ex_world0)"

text \<open>Notifications: one without any marker header; MTN reporting a failure and a success of the payment
  \<^verbatim>\<open>mg_o1_1700\<close>, and a success with a forged signature in both headers; Orange reporting
  a success under a marker header that carries a forged signature; PayGate, with the
  checksum that \<open>ex_env\<close> computes, reporting status 4 for that payment id, reporting
  status 2 for a payment id that no row has, and reporting status 1 for the attempt made
  for order \<^verbatim>\<open>o1\<close> at 1700; PayFast and Kora reporting the success of that attempt, with
  verifying signatures; PayFast with a signature that does not verify.\<close>

definition unmarked_req :: webhook_req where
  "unmarked_req = \<lparr>headers = Map.empty, body = [(''status'', JStr ''SUCCESS'')]\<rparr>"

definition mtn_failed_req :: webhook_req where
  "mtn_failed_req =
     \<lparr>headers = [''x-mtn-signature'' \<mapsto> ''any''],
      body = [(''status'', JStr ''FAILED''), (''referenceId'', JStr ''mg_o1_1700'')]\<rparr>"

definition mtn_successful_req :: webhook_req where
  "mtn_successful_req =
     \<lparr>headers = [''x-mtn-signature'' \<mapsto> ''any''],
      body = [(''status'', JStr ''SUCCESSFUL''), (''referenceId'', JStr ''mg_o1_1700''),
              (''financialTransactionId'', JStr ''363440463'')]\<rparr>"

definition mtn_forged_req :: webhook_req where
  "mtn_forged_req =
     \<lparr>headers = [''x-mtn-signature'' \<mapsto> ''forged'', ''x-signature'' \<mapsto> ''forged''],
      body = [(''status'', JStr ''SUCCESSFUL''), (''referenceId'', JStr ''mg_o1_1700'')]\<rparr>"

definition orange_forged_req :: webhook_req where
  "orange_forged_req =
     \<lparr>headers = [''x-orange-signature'' \<mapsto> ''forged''],
      body = [(''status'', JStr ''SUCCESS''), (''order_id'', JStr ''mg_o1_1700''),
              (''txnid'', JStr ''MP220915'')]\<rparr>"

definition paygate_cancelled_req :: webhook_req where
  "paygate_cancelled_req =
     \<lparr>headers = [''x-paygate-signature'' \<mapsto> ''0CC175B9''],
      body = [(''PAY_REQUEST_ID'', JStr ''23B785AE''), (''TRANSACTION_STATUS'', JStr ''4''),
              (''USER1'', JStr ''mg_o1_1700''), (''CHECKSUM'', JStr ''0CC175B9'')]\<rparr>"

definition paygate_stale_req :: webhook_req where
  "paygate_stale_req =
     \<lparr>headers = [''x-paygate-signature'' \<mapsto> ''0CC175B9''],
      body = [(''PAY_REQUEST_ID'', JStr ''11C2A6F0''), (''TRANSACTION_STATUS'', JStr ''2''),
              (''USER1'', JStr ''mg_o9_1600''), (''CHECKSUM'', JStr ''0CC175B9'')]\<rparr>"

definition paygate_echo_req :: webhook_req where
  "paygate_echo_req =
     \<lparr>headers = [''x-paygate-signature'' \<mapsto> ''0CC175B9''],
      body = [(''PAY_REQUEST_ID'', JStr ''23B785AE''), (''REFERENCE'', JStr ''mg_o1_1700''),
              (''TRANSACTION_STATUS'', JStr ''1''), (''USER1'', JStr ''o1''),
              (''CHECKSUM'', JStr ''0CC175B9'')]\<rparr>"

definition payfast_echo_req :: webhook_req where
  "payfast_echo_req =
     \<lparr>headers = [''x-payfast-signature'' \<mapsto> ''0cc175b9''],
      body = [(''m_payment_id'', JStr ''mg_o1_1700''), (''pf_payment_id'', JStr ''1089250''),
              (''payment_status'', JStr ''COMPLETE''), (''custom_str1'', JStr ''o1''),
              (''signature'', JStr ''0cc175b9'')]\<rparr>"

definition payfast_tampered_req :: webhook_req where
  "payfast_tampered_req =
     \<lparr>headers = [''x-payfast-signature'' \<mapsto> ''ffffffff''],
      body = [(''m_payment_id'', JStr ''mg_o1_1700''), (''payment_status'', JStr ''COMPLETE''),
              (''custom_str1'', JStr ''mg_o1_1700''), (''signature'', JStr ''ffffffff'')]\<rparr>"

definition kora_echo_req :: webhook_req where
  "kora_echo_req =
     \<lparr>headers = [''x-kora-signature'' \<mapsto> ''9f86d081''],
      body = [(''event'', JStr ''charge.success''),
              (''data'', JObj [(''reference'', JStr ''mg_o1_1700'')])]\<rparr>"

text \<open>Two results of a service for the payment \<^verbatim>\<open>mg_o1_1700\<close>.\<close>

definition ex_failed_update :: webhook_update where
  "ex_failed_update =
     \<lparr>wu_payment_id = Some (JStr ''mg_o1_1700''), wu_transaction_id = None,
      wu_status = Failed, wu_gateway_response = []\<rparr>"

definition ex_success_update :: webhook_update where
  "ex_success_update =
     \<lparr>wu_payment_id = Some (JStr ''mg_o1_1700''), wu_transaction_id = None,
      wu_status = Success, wu_gateway_response = []\<rparr>"

text \<open>What the MTN service returns for \<open>mtn_failed_req\<close>.\<close>

definition ex_failed_mtn :: webhook_update where
  "ex_failed_mtn =
     \<lparr>wu_payment_id = Some (JStr ''mg_o1_1700''),
      wu_transaction_id = Some (JStr ''mg_o1_1700''),
      wu_status = Failed,
      wu_gateway_response = body mtn_failed_req\<rparr>"

text \<open>The store after the first delivery of the MTN success notification at time 1800.\<close>

definition ex_world2 :: world where
  "ex_world2 = snd (webhook ex_env ex_cfg 1800 mtn_successful_req ex_world1)"

section \<open>Properties of the webhook route\<close>

subsection \<open>What \<open>reconcile\<close> does to the store\<close>

lemma reconcile_missing:
  "payments w (js_String (wu_payment_id u)) = None \<Longrightarrow>
     reconcile now u w = (Bad400 ''Failed to update payment record'', w)"
  by (simp add: reconcile_def)

lemma reconcile_other_status:
  "payments w (js_String (wu_payment_id u)) = Some p \<Longrightarrow> wu_status u \<noteq> Success \<Longrightarrow>
     reconcile now u w =
       (Ok200, w\<lparr>payments := (payments w)(js_String (wu_payment_id u) \<mapsto> updated_payment now u p)\<rparr>)"
  by (simp add: reconcile_def)

lemma reconcile_success:
  "payments w (js_String (wu_payment_id u)) = Some p \<Longrightarrow> wu_status u = Success \<Longrightarrow>
     reconcile now u w =
       (Bad400 ''this.processAffiliateCommission is not a function'',
        send_confirmation (p_order_id p) (mark_order_paid now (p_order_id p)
          (w\<lparr>payments := (payments w)(js_String (wu_payment_id u) \<mapsto> updated_payment now u p)\<rparr>)))"
  by (simp add: reconcile_def)

lemma payments_mark_order_paid: "payments (mark_order_paid now oid w) = payments w"
  by (simp add: mark_order_paid_def split: option.split)

lemma payments_send_confirmation: "payments (send_confirmation oid w) = payments w"
  by (simp add: send_confirmation_def split: option.split)

lemma orders_send_confirmation: "orders (send_confirmation oid w) = orders w"
  by (simp add: send_confirmation_def split: option.split)

text \<open>When the parsed id names a payment row and the parsed status is success, the row
  and its order are written as the success branch says (whatever the response is).\<close>

lemma reconcile_success_writes:
  assumes "payments w (js_String (wu_payment_id u)) = Some p" and "wu_status u = Success"
    and "orders w (p_order_id p) = Some ord"
  shows "payments (snd (reconcile now u w)) (js_String (wu_payment_id u))
           = Some (updated_payment now u p)"
    and "p_status (updated_payment now u p) = Success"
    and "p_processed_at (updated_payment now u p) = Some now"
    and "orders (snd (reconcile now u w)) (p_order_id p)
           = Some (ord\<lparr>o_payment_status := Success, o_status := O_paid, o_updated_at := now\<rparr>)"
  using assms
  by (simp_all add: reconcile_success payments_mark_order_paid payments_send_confirmation
      orders_send_confirmation updated_payment_def mark_order_paid_def)

lemmas ex_defs = ex_env_def ex_cfg_def ex_user_def ex_order_def ex_payment_def ex_world0_def
  ex_world1_def ex_cfg_dev_def ex_env_kora_rejects_def ex_user_unnamed_def
  ex_order_underscore_def kora_underscore_req_def
  ex_env_down_def ex_paid_order_def ex_world_paid_order_def init_req_of_def
  unmarked_req_def ex_failed_update_def ex_success_update_def mtn_failed_req_def
  mtn_successful_req_def mtn_forged_req_def
  orange_forged_req_def paygate_cancelled_req_def paygate_stale_req_def paygate_echo_req_def
  payfast_echo_req_def payfast_tampered_req_def kora_echo_req_def

lemmas route_defs = webhook_def webhook_dispatch_def webhook_source_def signature_of_def
  handleWebhook_def truthy_str_def js_or_str_def js_or_def prop_of_def reconcile_def
  updated_payment_def mark_order_paid_def send_confirmation_def Let_def

lemmas init_defs = initialize_def find_order_def try_initialize_def gateway_of_def
  initializePayment_def reference_of_def digits.simps digit_char_def truthy_str_def
  new_payment_def Let_def

text \<open>The two derived stores, evaluated.\<close>

lemma ex_world2_eq:
  "ex_world2 =
     \<lparr>payments = [''mg_o1_1700'' \<mapsto>
        ex_payment\<lparr>p_status := Success, p_gateway_transaction_id := JStr ''363440463'',
                    p_gateway_response := JObj (body mtn_successful_req),
                    p_processed_at := Some 1800, p_updated_at := 1800\<rparr>],
      orders = [''o1'' \<mapsto>
        ex_order\<lparr>o_payment_status := Success, o_status := O_paid, o_updated_at := 1800\<rparr>],
      users = [''u1'' \<mapsto> ex_user],
      emails = [(''ada@example.com'', ''o1'')],
      gateway_calls = []\<rparr>"
  by (simp add: ex_world2_def ex_defs route_defs mtn_handleWebhook_def)

lemma ex_world_payfast_rows:
  "map_option p_status (payments ex_world_payfast ''mg_o1_1700'') = Some Pending"
  "map_option p_order_id (payments ex_world_payfast ''mg_o1_1700'') = Some ''o1''"
  "payments ex_world_payfast ''o1'' = None"
  "map_option o_payment_status (orders ex_world_payfast ''o1'') = Some Pending"
  by (simp_all add: ex_world_payfast_def ex_defs init_defs payfast_initializePayment_def)

lemma payfast_echo_dispatch:
  "webhook_dispatch ex_env ex_cfg payfast_echo_req =
     Inr (Some \<lparr>wu_payment_id = Some (JStr ''o1''),
                wu_transaction_id = Some (JStr ''1089250''),
                wu_status = Success,
                wu_gateway_response = delete_signature (body payfast_echo_req)\<rparr>)"
  by (simp add: ex_defs route_defs payfast_handleWebhook_def payfast_verifySignature_def
      payfast_generateSignature_def payfast_status_def delete_signature_def)

subsection \<open>C1\<close>

text \<open>
  C1, as stated: a further reconcile call for a Payment that is already success or
  failed is a no-op (conditional update, no second notification). The route has no
  such guard. Counterexample: \<open>ex_world2\<close> is the store after the MTN success
  notification for \<^verbatim>\<open>mg_o1_1700\<close>; the payment is success and one confirmation has been
  sent. A later failure notification for the same payment rewrites its status to
  failed, and a replay of the success notification sends a second confirmation and
  moves \<^verbatim>\<open>processed_at\<close>.
\<close>

theorem terminal_payment_is_rewritten:
  "map_option p_status (payments ex_world2 ''mg_o1_1700'') = Some Success
   \<and> map_option p_status
        (payments (snd (webhook ex_env ex_cfg 1900 mtn_failed_req ex_world2)) ''mg_o1_1700'')
       = Some Failed
   \<and> emails ex_world2 = [(''ada@example.com'', ''o1'')]
   \<and> emails (snd (webhook ex_env ex_cfg 1900 mtn_successful_req ex_world2))
       = [(''ada@example.com'', ''o1''), (''ada@example.com'', ''o1'')]
   \<and> map_option p_processed_at
        (payments (snd (webhook ex_env ex_cfg 1900 mtn_successful_req ex_world2)) ''mg_o1_1700'')
       = Some (Some 1900)"
  by (simp add: ex_world2_eq ex_defs route_defs mtn_handleWebhook_def)

text \<open>
  C1, amended: the update of the Payment row is keyed on the parsed id alone. For a
  Payment in any status, a reconcile call whose parsed id names it overwrites the row:
  the status becomes the parsed status, the transaction id the parsed one (kept when
  the notification has none), the raw response the payload, \<^verbatim>\<open>processed_at\<close> the time of the
  call for a success and null otherwise, \<^verbatim>\<open>updated_at\<close> the time of the call; the other
  columns are kept and no other Payment row changes. When the parsed status is not
  success, the answer is 200 and no Order row and no notification is touched. When it is
  success, on every delivery, the parent Order (if it exists) gets payment status
  success, status paid and the time of the call, no other Order row changes, and the
  confirmation email is handed to the email service again, provided the order and its
  user row are found and every item of the order has its product joined.
\<close>

theorem reconcile_overwrites_any_status:
  "payments w (js_String (wu_payment_id u)) = Some p \<Longrightarrow>
     payments (snd (reconcile now u w))
       = (payments w)(js_String (wu_payment_id u) \<mapsto>
           p\<lparr>p_status := wu_status u,
             p_gateway_transaction_id :=
               (case wu_transaction_id u of None \<Rightarrow> p_gateway_transaction_id p | Some t \<Rightarrow> t),
             p_gateway_response := JObj (wu_gateway_response u),
             p_processed_at := (if wu_status u = Success then Some now else None),
             p_updated_at := now\<rparr>)
     \<and> (wu_status u \<noteq> Success \<longrightarrow>
          fst (reconcile now u w) = Ok200
          \<and> orders (snd (reconcile now u w)) = orders w
          \<and> emails (snd (reconcile now u w)) = emails w)
     \<and> (wu_status u = Success \<longrightarrow>
          orders (snd (reconcile now u w))
            = (case orders w (p_order_id p) of
                 None \<Rightarrow> orders w
               | Some ord \<Rightarrow>
                   (orders w)(p_order_id p \<mapsto>
                      ord\<lparr>o_payment_status := Success, o_status := O_paid,
                          o_updated_at := now\<rparr>))
          \<and> emails (snd (reconcile now u w))
            = (case orders w (p_order_id p) of
                 None \<Rightarrow> emails w
               | Some ord \<Rightarrow>
                   (case users w (o_user_id ord) of
                      None \<Rightarrow> emails w
                    | Some usr \<Rightarrow>
                        if (\<forall>item \<in> set (o_order_items ord). i_product_name item \<noteq> None)
                        then emails w @ [(u_email usr, o_id ord)]
                        else emails w)))"
proof (cases "wu_status u = Success")
  case True
  assume p: "payments w (js_String (wu_payment_id u)) = Some p"
  show ?thesis
    using True
    by (auto simp add: reconcile_success [OF p True] payments_mark_order_paid
        payments_send_confirmation orders_send_confirmation updated_payment_def
        mark_order_paid_def send_confirmation_def list_all_iff
        split: option.split)
next
  case False
  assume p: "payments w (js_String (wu_payment_id u)) = Some p"
  show ?thesis
    using False by (simp add: reconcile_other_status [OF p False] updated_payment_def)
qed

theorem reconcile_overwrites_any_status_witness:
  "payments ex_world1 (js_String (wu_payment_id ex_failed_update)) = Some ex_payment
   \<and> wu_status ex_failed_update \<noteq> Success
   \<and> fst (reconcile 1800 ex_failed_update ex_world1) = Ok200
   \<and> payments (snd (reconcile 1800 ex_failed_update ex_world1))
        = [''mg_o1_1700'' \<mapsto>
             ex_payment\<lparr>p_status := Failed, p_gateway_response := JObj [],
                         p_updated_at := 1800\<rparr>]
   \<and> orders (snd (reconcile 1800 ex_failed_update ex_world1)) = orders ex_world1
   \<and> payments ex_world1 (js_String (wu_payment_id ex_success_update)) = Some ex_payment
   \<and> wu_status ex_success_update = Success
   \<and> payments (snd (reconcile 1800 ex_success_update ex_world1))
        = [''mg_o1_1700'' \<mapsto>
             ex_payment\<lparr>p_status := Success, p_gateway_response := JObj [],
                         p_processed_at := Some 1800, p_updated_at := 1800\<rparr>]
   \<and> orders (snd (reconcile 1800 ex_success_update ex_world1))
        = [''o1'' \<mapsto> ex_order\<lparr>o_payment_status := Success, o_status := O_paid,
                                 o_updated_at := 1800\<rparr>]
   \<and> emails (snd (reconcile 1800 ex_success_update ex_world1)) = [(''ada@example.com'', ''o1'')]"
proof -
  have f: "payments ex_world1 (js_String (wu_payment_id ex_failed_update)) = Some ex_payment"
    by (simp add: ex_failed_update_def ex_world1_def ex_world0_def)
  have s: "payments ex_world1 (js_String (wu_payment_id ex_success_update)) = Some ex_payment"
    by (simp add: ex_success_update_def ex_world1_def ex_world0_def)
  have nf: "wu_status ex_failed_update \<noteq> Success" "wu_status ex_success_update = Success"
    by (simp_all add: ex_failed_update_def ex_success_update_def)
  show ?thesis
    using reconcile_overwrites_any_status [OF f, of 1800]
      reconcile_overwrites_any_status [OF s, of 1800] f s nf
    by (simp add: ex_defs)
qed

subsection \<open>C2\<close>

text \<open>
  C2: a notification with a valid signature and a status that maps to success, for a
  pending Payment, sets the Payment to success and the Order to success and paid.
  The code at the scenario of the specification: \<^verbatim>\<open>/initialize\<close> with PayFast for order
  \<^verbatim>\<open>o1\<close> stores the pending payment \<^verbatim>\<open>mg_o1_1700\<close>; the PayFast notification that echoes this
  attempt (\<^verbatim>\<open>custom_str1 = o1\<close>, \<^verbatim>\<open>m_payment_id = mg_o1_1700\<close>, status \<^verbatim>\<open>COMPLETE\<close>) verifies,
  is parsed with \<^verbatim>\<open>payment_id = o1\<close>, finds no row under that id, and is answered 400; the
  payment and the order stay pending.
\<close>

theorem payfast_success_webhook_not_applied:
  "map_option p_status (payments ex_world_payfast ''mg_o1_1700'') = Some Pending
   \<and> map_option p_order_id (payments ex_world_payfast ''mg_o1_1700'') = Some ''o1''
   \<and> map_option o_payment_status (orders ex_world_payfast ''o1'') = Some Pending
   \<and> echoes PayFast ex_order 1700 (body payfast_echo_req)
   \<and> payfast_verifySignature ex_env ex_cfg (body payfast_echo_req)
   \<and> webhook_dispatch ex_env ex_cfg payfast_echo_req =
        Inr (Some \<lparr>wu_payment_id = Some (JStr ''o1''),
                   wu_transaction_id = Some (JStr ''1089250''),
                   wu_status = Success,
                   wu_gateway_response = delete_signature (body payfast_echo_req)\<rparr>)
   \<and> webhook ex_env ex_cfg 1800 payfast_echo_req ex_world_payfast
        = (Bad400 ''Failed to update payment record'', ex_world_payfast)"
proof -
  have v: "payfast_verifySignature ex_env ex_cfg (body payfast_echo_req)"
    by (simp add: ex_defs payfast_verifySignature_def payfast_generateSignature_def
        prop_of_def delete_signature_def)
  have e: "echoes PayFast ex_order 1700 (body payfast_echo_req)"
    by (simp add: echoes_def ex_defs prop_of_def reference_of_def digits.simps digit_char_def)
  have w: "webhook ex_env ex_cfg 1800 payfast_echo_req ex_world_payfast
             = (Bad400 ''Failed to update payment record'', ex_world_payfast)"
    by (simp add: webhook_def payfast_echo_dispatch reconcile_missing ex_world_payfast_rows)
  show ?thesis
    using v e w payfast_echo_dispatch ex_world_payfast_rows by simp
qed

text \<open>For comparison, the route on an update whose id does name a pending payment (as
  the MTN and Orange services produce it): \<open>reconcile_success_writes\<close> above.\<close>

subsection \<open>C4\<close>

text \<open>
  C4, as stated: for all five services a notification whose signature does not verify
  is rejected and changes no row. Counterexample: the Orange notification carries the
  marker header \<^verbatim>\<open>x-orange-signature: forged\<close>, which Orange's own verification refuses;
  the route hands the service the header \<^verbatim>\<open>x-signature\<close> (absent), the service skips the
  check, and the pending payment becomes success and its order paid. The MTN service
  reads no signature at all: with \<^verbatim>\<open>forged\<close> in both headers the payment is updated too.
\<close>

theorem forged_signature_is_processed:
  "webhook_source orange_forged_req = Some Orange
   \<and> headers orange_forged_req ''x-orange-signature'' = Some ''forged''
   \<and> \<not> orange_verifyWebhookSignature ex_env ex_cfg (body orange_forged_req) ''forged''
   \<and> map_option p_status (payments ex_world1 ''mg_o1_1700'') = Some Pending
   \<and> map_option p_status
        (payments (snd (webhook ex_env ex_cfg 1800 orange_forged_req ex_world1)) ''mg_o1_1700'')
       = Some Success
   \<and> map_option o_status
        (orders (snd (webhook ex_env ex_cfg 1800 orange_forged_req ex_world1)) ''o1'')
       = Some O_paid
   \<and> webhook_source mtn_forged_req = Some MTN
   \<and> signature_of mtn_forged_req = Some ''forged''
   \<and> map_option p_status
        (payments (snd (webhook ex_env ex_cfg 1800 mtn_forged_req ex_world1)) ''mg_o1_1700'')
       = Some Success"
  by (simp add: ex_defs route_defs orange_handleWebhook_def orange_result_def
      orange_verifyWebhookSignature_def toLowerCase_def lower_char_def mtn_handleWebhook_def)

text \<open>
  C4, amended: PayFast and PayGate reject every notification whose signature or
  checksum field differs from the digest they recompute; Kora rejects when its webhook
  secret is set and the signature handed to it differs from the digest; Orange rejects
  when a signature is handed to it, its merchant key is set and the two differ; MTN
  checks nothing. Every such rejection is answered 400 and leaves the whole store as it
  was.
\<close>

theorem rejected_signature_changes_nothing:
  "(webhook_source req = Some Kora
      \<and> \<not> kora_verifyWebhookSignature env cfg (body req) (signature_of req)
    \<or> webhook_source req = Some Orange
      \<and> (\<exists>sg. signature_of req = Some sg \<and> sg \<noteq> []
            \<and> \<not> orange_verifyWebhookSignature env cfg (body req) sg)
    \<or> webhook_source req = Some PayGate \<and> \<not> paygate_verifyChecksum env cfg (body req)
    \<or> webhook_source req = Some PayFast \<and> \<not> payfast_verifySignature env cfg (body req))
   \<Longrightarrow> \<exists>m. webhook env cfg now req w = (Bad400 m, w)"
  by (auto simp add: webhook_def webhook_dispatch_def handleWebhook_def kora_handleWebhook_def
      orange_handleWebhook_def paygate_handleWebhook_def payfast_handleWebhook_def)

theorem rejected_signature_changes_nothing_witness:
  "webhook_source payfast_tampered_req = Some PayFast
   \<and> \<not> payfast_verifySignature ex_env ex_cfg (body payfast_tampered_req)
   \<and> webhook ex_env ex_cfg 1800 payfast_tampered_req ex_world1
        = (Bad400 ''Invalid PayFast signature'', ex_world1)"
proof -
  have s: "webhook_source payfast_tampered_req = Some PayFast"
    by (simp add: payfast_tampered_req_def webhook_source_def truthy_str_def)
  have v: "\<not> payfast_verifySignature ex_env ex_cfg (body payfast_tampered_req)"
    by (simp add: ex_defs payfast_verifySignature_def payfast_generateSignature_def
        prop_of_def delete_signature_def)
  have m: "\<And>m. webhook ex_env ex_cfg 1800 payfast_tampered_req ex_world1 = (Bad400 m, ex_world1)
              \<Longrightarrow> m = ''Invalid PayFast signature''"
    using s v
    by (simp add: webhook_def webhook_dispatch_def handleWebhook_def payfast_handleWebhook_def)
  show ?thesis
    using rejected_signature_changes_nothing
            [of payfast_tampered_req ex_env ex_cfg 1800 ex_world1] s v m
    by auto
qed

subsection \<open>C5\<close>

text \<open>
  C5, as stated: the endpoint answers 200 whenever processing succeeds and non-200
  exactly when the signature fails or the source is unknown. Counterexample: a PayGate
  notification with the marker header and a verifying checksum, for a payment id that
  no row has, is answered 400.
\<close>

theorem unknown_payment_is_answered_400:
  "webhook_source paygate_stale_req = Some PayGate
   \<and> paygate_verifyChecksum ex_env ex_cfg (body paygate_stale_req)
   \<and> webhook ex_env ex_cfg 1800 paygate_stale_req ex_world1
        = (Bad400 ''Failed to update payment record'', ex_world1)"
  by (simp add: ex_defs route_defs paygate_handleWebhook_def paygate_verifyChecksum_def
      paygate_generateChecksum_def paygate_status_def toUpperCase_def upper_char_def)

text \<open>
  C5, amended: the endpoint answers 400, with the store unchanged, when no known marker
  header is present or the selected service throws (signature, checksum or validation
  failure, malformed body), and when no Payment row has the parsed id; it answers 200
  when the parsed status is not success and a Payment row has the parsed id, whatever
  the status of that row. (Nothing is said here about the answer in the success branch.)
\<close>

theorem webhook_responses:
  "(webhook_dispatch env cfg req = Inl e \<longrightarrow>
      webhook env cfg now req w = (Bad400 (message e), w))
   \<and> (webhook_source req = None \<longrightarrow>
      webhook env cfg now req w = (Bad400 ''Unknown webhook source'', w))
   \<and> (webhook_dispatch env cfg req = Inr (Some u)
        \<and> payments w (js_String (wu_payment_id u)) = None \<longrightarrow>
      webhook env cfg now req w = (Bad400 ''Failed to update payment record'', w))
   \<and> (webhook_dispatch env cfg req = Inr (Some u)
        \<and> payments w (js_String (wu_payment_id u)) = Some p \<and> wu_status u \<noteq> Success \<longrightarrow>
      fst (webhook env cfg now req w) = Ok200)"
  by (simp add: webhook_def webhook_dispatch_def reconcile_missing reconcile_other_status)

theorem webhook_responses_witness:
  "webhook_dispatch ex_env ex_cfg payfast_tampered_req = Inl (Error ''Invalid PayFast signature'')
   \<and> webhook ex_env ex_cfg 1800 payfast_tampered_req ex_world1
        = (Bad400 ''Invalid PayFast signature'', ex_world1)
   \<and> webhook_source unmarked_req = None
   \<and> webhook ex_env ex_cfg 1800 unmarked_req ex_world1
        = (Bad400 ''Unknown webhook source'', ex_world1)
   \<and> webhook_dispatch ex_env ex_cfg mtn_failed_req = Inr (Some ex_failed_mtn)
   \<and> payments ex_world0 (js_String (wu_payment_id ex_failed_mtn)) = None
   \<and> webhook ex_env ex_cfg 1800 mtn_failed_req ex_world0
        = (Bad400 ''Failed to update payment record'', ex_world0)
   \<and> payments ex_world2 (js_String (wu_payment_id ex_failed_mtn)) \<noteq> None
   \<and> wu_status ex_failed_mtn \<noteq> Success
   \<and> fst (webhook ex_env ex_cfg 1900 mtn_failed_req ex_world2) = Ok200"
proof -
  have d1: "webhook_dispatch ex_env ex_cfg payfast_tampered_req
              = Inl (Error ''Invalid PayFast signature'')"
    by (simp add: ex_defs route_defs payfast_handleWebhook_def payfast_verifySignature_def
        payfast_generateSignature_def delete_signature_def)
  have d2: "webhook_source unmarked_req = None"
    by (simp add: unmarked_req_def webhook_source_def truthy_str_def)
  have d3: "webhook_dispatch ex_env ex_cfg mtn_failed_req = Inr (Some ex_failed_mtn)"
    by (simp add: ex_defs ex_failed_mtn_def route_defs mtn_handleWebhook_def)
  have p0: "payments ex_world0 (js_String (wu_payment_id ex_failed_mtn)) = None"
    by (simp add: ex_world0_def)
  obtain p where p2: "payments ex_world2 (js_String (wu_payment_id ex_failed_mtn)) = Some p"
    by (simp add: ex_world2_eq ex_failed_mtn_def)
  have ns: "wu_status ex_failed_mtn \<noteq> Success"
    by (simp add: ex_failed_mtn_def)
  show ?thesis
    using webhook_responses [where env = ex_env and cfg = ex_cfg and req = payfast_tampered_req
        and e = "Error ''Invalid PayFast signature''" and now = 1800 and w = ex_world1]
      webhook_responses [where env = ex_env and cfg = ex_cfg and req = unmarked_req
        and now = 1800 and w = ex_world1]
      webhook_responses [where env = ex_env and cfg = ex_cfg and req = mtn_failed_req
        and u = ex_failed_mtn and now = 1800 and w = ex_world0]
      webhook_responses [where env = ex_env and cfg = ex_cfg and req = mtn_failed_req
        and u = ex_failed_mtn and now = 1900 and w = ex_world2 and p = p]
      d1 d2 d3 p0 p2 ns
    by simp
qed

subsection \<open>C8\<close>

text \<open>
  C8, as stated: a notification parsed as failed for a pending Payment sets the payment
  status of the parent Order to failed. The route writes the order only in the success
  branch. Counterexample: the MTN failure notification for the pending payment
  \<^verbatim>\<open>mg_o1_1700\<close> is answered 200 and turns the payment to failed, and the payment status
  of its order \<^verbatim>\<open>o1\<close> is still pending.
\<close>

theorem failed_webhook_leaves_order_pending:
  "webhook_dispatch ex_env ex_cfg mtn_failed_req = Inr (Some ex_failed_mtn)
   \<and> wu_status ex_failed_mtn = Failed
   \<and> map_option p_status (payments ex_world1 ''mg_o1_1700'') = Some Pending
   \<and> map_option p_order_id (payments ex_world1 ''mg_o1_1700'') = Some ''o1''
   \<and> fst (webhook ex_env ex_cfg 1800 mtn_failed_req ex_world1) = Ok200
   \<and> map_option p_status
        (payments (snd (webhook ex_env ex_cfg 1800 mtn_failed_req ex_world1)) ''mg_o1_1700'')
       = Some Failed
   \<and> map_option o_payment_status
        (orders (snd (webhook ex_env ex_cfg 1800 mtn_failed_req ex_world1)) ''o1'')
       = Some Pending"
  by (simp add: ex_defs ex_failed_mtn_def route_defs mtn_handleWebhook_def)

text \<open>
  C8, amended: a notification parsed with any status other than success (failed, and
  likewise pending or cancelled) leaves every Order row as it was, payment status
  included; only the Payment row is written.
\<close>

theorem non_success_webhook_leaves_orders:
  "webhook_dispatch env cfg req = Inr (Some u) \<Longrightarrow> wu_status u \<noteq> Success \<Longrightarrow>
     orders (snd (webhook env cfg now req w)) = orders w"
  by (cases "payments w (js_String (wu_payment_id u))")
     (simp_all add: webhook_def reconcile_missing reconcile_other_status)

theorem non_success_webhook_leaves_orders_witness:
  "webhook_dispatch ex_env ex_cfg mtn_failed_req = Inr (Some ex_failed_mtn)
   \<and> wu_status ex_failed_mtn \<noteq> Success
   \<and> orders (snd (webhook ex_env ex_cfg 1800 mtn_failed_req ex_world1)) = orders ex_world1"
proof -
  have d: "webhook_dispatch ex_env ex_cfg mtn_failed_req = Inr (Some ex_failed_mtn)"
    by (simp add: ex_defs ex_failed_mtn_def route_defs mtn_handleWebhook_def)
  have ns: "wu_status ex_failed_mtn \<noteq> Success"
    by (simp add: ex_failed_mtn_def)
  show ?thesis
    using non_success_webhook_leaves_orders [OF d ns, of 1800 ex_world1] d ns by simp
qed

subsection \<open>C9\<close>

text \<open>
  C9: every service maps the provider's statuses onto success, failed and pending, so
  the route writes only these three into a Payment row. PayFast and Orange map the
  provider's \<^verbatim>\<open>CANCELLED\<close> to failed; PayGate maps its transaction status 4 to a fourth
  value, \<^verbatim>\<open>'cancelled'\<close>, which the route writes into the row. The code at a PayGate
  notification with a verifying checksum and status 4 for the payment \<^verbatim>\<open>mg_o1_1700\<close>:
\<close>

theorem paygate_writes_cancelled:
  "paygate_verifyChecksum ex_env ex_cfg (body paygate_cancelled_req)
   \<and> map_option (map_option wu_status)
        (case paygate_handleWebhook ex_env ex_cfg (body paygate_cancelled_req)
                (signature_of paygate_cancelled_req) of
           Inl e \<Rightarrow> None | Inr r \<Rightarrow> Some r)
       = Some (Some Cancelled)
   \<and> fst (webhook ex_env ex_cfg 1800 paygate_cancelled_req ex_world1) = Ok200
   \<and> map_option p_status
        (payments (snd (webhook ex_env ex_cfg 1800 paygate_cancelled_req ex_world1))
           ''mg_o1_1700'')
       = Some Cancelled"
  by (simp add: ex_defs route_defs paygate_handleWebhook_def paygate_verifyChecksum_def
      paygate_generateChecksum_def paygate_status_def toUpperCase_def upper_char_def)

text \<open>The other four services stay within success and failed.\<close>

lemma other_services_status:
  "kora_handleWebhook env cfg d sg = Inr (Some u) \<Longrightarrow> wu_status u \<in> {Success, Failed}"
  "mtn_handleWebhook d sg = Inr (Some u) \<Longrightarrow> wu_status u \<in> {Success, Failed}"
  "orange_handleWebhook env cfg d sg = Inr (Some u) \<Longrightarrow> wu_status u \<in> {Success, Failed}"
  "payfast_handleWebhook env cfg d sg = Inr (Some u) \<Longrightarrow> wu_status u \<in> {Success, Failed, Pending}"
  by (auto simp add: kora_handleWebhook_def kora_result_def mtn_handleWebhook_def
      orange_handleWebhook_def orange_result_def payfast_handleWebhook_def payfast_status_def
      Let_def split: if_splits sum.splits)

section \<open>Properties of the initialisation route\<close>

lemma try_initialize_unsupported:
  "gateway_of m = None \<Longrightarrow>
     try_initialize env cfg now usr req m ord w
       = (Inl (ValidationError ''Unsupported payment method''), w)"
  by (simp add: try_initialize_def)

text \<open>The route once the two required fields are present and the order is found.\<close>

lemma initialize_found:
  assumes "order_id req = Some oid" and "oid \<noteq> []"
    and "payment_method req = Some m" and "m \<noteq> []"
    and "find_order w oid usr = Some ord"
  shows "initialize env cfg now usr req w =
     (if o_payment_status ord \<noteq> Pending
      then (Inl (ValidationError ''Order payment has already been processed''), w)
      else if m \<in> set [''mtn'', ''orange''] \<and> \<not> truthy_str (phone_number req)
      then (Inl (ValidationError ''Phone number is required for mobile money payments''), w)
      else (case try_initialize env cfg now usr req m ord w of
              (Inl e, w') \<Rightarrow> (Inl (Error (''Payment initialization failed: '' @ message e)), w')
            | (Inr r, w') \<Rightarrow> (Inr r, w')))"
  using assms by (simp add: initialize_def)

text \<open>The gateway log grows only past the guard on the payment status.\<close>

lemma initialize_calls_only_when_pending:
  assumes "gateway_calls (snd (initialize env cfg now usr req w)) \<noteq> gateway_calls w"
  shows "\<exists>oid ord. order_id req = Some oid \<and> find_order w oid usr = Some ord
            \<and> o_payment_status ord = Pending"
  using assms
  by (auto simp add: initialize_def split: option.splits if_splits prod.splits)

text \<open>The five cases of the switch, each with the call it makes.\<close>

lemma switch_case:
  assumes "(m, g, sr) \<in>
     {(''kora'', Kora, kora_initializePayment env now ord usr),
      (''mtn'', MTN, mtn_initializePayment env now ord usr),
      (''orange'', Orange, orange_initializePayment env now ord usr),
      (''paygate'', PayGate, paygate_initializePayment env now ord usr),
      (''payfast'', PayFast, payfast_initializePayment env cfg now ord usr (return_url req))}"
  shows "gateway_of m = Some g" and "initializePayment env cfg now g ord usr req = sr"
  using assms by (auto simp add: gateway_of_def initializePayment_def)

text \<open>The route past its guards, for a method whose service answers \<open>sr\<close>.\<close>

lemma initialize_served:
  assumes "order_id req = Some oid" and "oid \<noteq> []"
    and "payment_method req = Some m" and "m \<noteq> []"
    and "find_order w oid usr = Some ord"
    and "o_payment_status ord = Pending"
    and "m \<in> set [''mtn'', ''orange''] \<longrightarrow> truthy_str (phone_number req)"
    and "gateway_of m = Some g"
    and "initializePayment env cfg now g ord usr req = sr"
  shows "sr = Inl e \<Longrightarrow>
           initialize env cfg now usr req w
             = (Inl (Error (''Payment initialization failed: '' @ message e)),
                w\<lparr>gateway_calls := gateway_calls w @ [g]\<rparr>)"
    and "sr = Inr r \<Longrightarrow> payments w (ir_payment_id r) = None \<Longrightarrow>
           initialize env cfg now usr req w
             = (Inr \<lparr>r_payment_id = ir_payment_id r, r_payment_url = ir_payment_url r,
                     r_payment_method = m, r_amount = o_total_price ord,
                     r_currency = ir_currency r, r_expires_at = ir_expires_at r\<rparr>,
                w\<lparr>gateway_calls := gateway_calls w @ [g],
                  payments := (payments w)(ir_payment_id r \<mapsto> new_payment now m ord usr r)\<rparr>)"
    and "gateway_calls (snd (initialize env cfg now usr req w)) = gateway_calls w @ [g]"
  using assms
  by (auto simp add: initialize_found [OF assms(1-5)] try_initialize_def Let_def
      split: sum.split)

text \<open>The guards of the route at the concrete requests.\<close>

lemma ex_guards:
  "order_id (init_req_of m) = Some ''o1''" "''o1'' \<noteq> []"
  "payment_method (init_req_of m) = Some m"
  "find_order ex_world0 ''o1'' ex_user = Some ex_order"
  "find_order ex_world0 ''o1'' ex_user_unnamed = Some ex_order"
  "o_payment_status ex_order = Pending"
  "m \<in> set [''mtn'', ''orange''] \<longrightarrow> truthy_str (phone_number (init_req_of m))"
  by (simp_all add: init_req_of_def find_order_def ex_world0_def ex_order_def ex_user_def
      ex_user_unnamed_def truthy_str_def)

subsection \<open>C6\<close>

text \<open>
  C6, as stated: when the \<^verbatim>\<open>initializePayment\<close> of the selected service fails, the failure
  reaches the caller as a generic payment-initialisation error, and no Payment row is
  persisted. The route rethrows \<^verbatim>\<open>Payment initialization failed: ${error.message}\<close>, and
  the error handler replaces the message only in production. Counterexample: outside
  production, a charge that Kora rejects with a text of its own reaches the caller of
  \<^verbatim>\<open>/initialize\<close> with that text in the message of the 500 response.
\<close>

theorem provider_text_reaches_the_caller:
  "NODE_ENV ex_cfg_dev = Some ''development''
   \<and> kora_initializePayment ex_env_kora_rejects 1700 ex_order ex_user
        = Inl (Error ''Kora Pay error: Merchant account 4411 is suspended'')
   \<and> initialize_response ex_env_kora_rejects ex_cfg_dev 1700 ex_user (init_req_of ''kora'')
        ex_world0
        = (Inl \<lparr>er_status = 500,
                er_message = ''Payment initialization failed: Kora Pay error: Merchant account 4411 is suspended'',
                er_code = ''INTERNAL_ERROR''\<rparr>,
           ex_world0\<lparr>gateway_calls := [Kora]\<rparr>)"
  by (simp add: ex_defs init_defs initialize_response_def kora_initializePayment_def
      internal_error_def message_or_unexpected_def)

text \<open>
  C6, amended: when the \<^verbatim>\<open>initializePayment\<close> of the service that the method id selects
  fails with an error \<open>e\<close>, the route throws the \<^verbatim>\<open>Error\<close> whose message is
  \<^verbatim>\<open>Payment initialization failed: \<close> followed by the message of \<open>e\<close>; the caller receives
  status 500 with code \<^verbatim>\<open>INTERNAL_ERROR\<close> and that message, the text of the service included,
  or, when \<^verbatim>\<open>NODE_ENV\<close> is \<^verbatim>\<open>production\<close>, the message \<^verbatim>\<open>An internal server error occurred\<close>. No
  Payment row is persisted: the \<^verbatim>\<open>payments\<close> and \<^verbatim>\<open>orders\<close> tables are as before the call.
\<close>

theorem adapter_failure_persists_nothing:
  assumes "order_id req = Some oid" and "oid \<noteq> []"
    and "payment_method req = Some m" and "m \<noteq> []"
    and "find_order w oid usr = Some ord"
    and "o_payment_status ord = Pending"
    and "m \<in> set [''mtn'', ''orange''] \<longrightarrow> truthy_str (phone_number req)"
    and "(m, g, Inl e) \<in>
     {(''kora'', Kora, kora_initializePayment env now ord usr),
      (''mtn'', MTN, mtn_initializePayment env now ord usr),
      (''orange'', Orange, orange_initializePayment env now ord usr),
      (''paygate'', PayGate, paygate_initializePayment env now ord usr),
      (''payfast'', PayFast, payfast_initializePayment env cfg now ord usr (return_url req))}"
  shows "fst (initialize env cfg now usr req w)
           = Inl (Error (''Payment initialization failed: '' @ message e))
         \<and> fst (initialize_response env cfg now usr req w)
           = Inl \<lparr>er_status = 500,
                  er_message = (if NODE_ENV cfg = Some ''production''
                                then ''An internal server error occurred''
                                else ''Payment initialization failed: '' @ message e),
                  er_code = ''INTERNAL_ERROR''\<rparr>
         \<and> payments (snd (initialize_response env cfg now usr req w)) = payments w
         \<and> orders (snd (initialize_response env cfg now usr req w)) = orders w"
proof -
  note sc = switch_case [OF assms(8)]
  have "initialize env cfg now usr req w
          = (Inl (Error (''Payment initialization failed: '' @ message e)),
             w\<lparr>gateway_calls := gateway_calls w @ [g]\<rparr>)"
    using initialize_served(1) [OF assms(1-7) sc] by simp
  then show ?thesis
    by (simp add: initialize_response_def internal_error_def message_or_unexpected_def)
qed

theorem adapter_failure_persists_nothing_witness:
  "NODE_ENV ex_cfg = Some ''production''
   \<and> kora_initializePayment ex_env_kora_rejects 1700 ex_order ex_user
        = Inl (Error ''Kora Pay error: Merchant account 4411 is suspended'')
   \<and> fst (initialize_response ex_env_kora_rejects ex_cfg 1700 ex_user (init_req_of ''kora'')
            ex_world0)
        = Inl \<lparr>er_status = 500, er_message = ''An internal server error occurred'',
               er_code = ''INTERNAL_ERROR''\<rparr>
   \<and> payments (snd (initialize_response ex_env_kora_rejects ex_cfg 1700 ex_user
            (init_req_of ''kora'') ex_world0)) = payments ex_world0
   \<and> payfast_initializePayment ex_env ex_cfg_dev 1700 ex_order ex_user_unnamed
        (return_url (init_req_of ''payfast''))
        = Inl (Error (''PayFast error: '' @ cannot_read ''null'' ''split''))
   \<and> fst (initialize_response ex_env ex_cfg_dev 1700 ex_user_unnamed (init_req_of ''payfast'')
            ex_world0)
        = Inl \<lparr>er_status = 500,
               er_message = ''Payment initialization failed: PayFast error: ''
                            @ cannot_read ''null'' ''split'',
               er_code = ''INTERNAL_ERROR''\<rparr>
   \<and> payments (snd (initialize_response ex_env ex_cfg_dev 1700 ex_user_unnamed
            (init_req_of ''payfast'') ex_world0)) = payments ex_world0
   \<and> mtn_initializePayment ex_env_down 1700 ex_order ex_user
        = Inl (Error ''MTN MoMo error: Failed to get MTN access token'')
   \<and> fst (initialize ex_env_down ex_cfg 1700 ex_user (init_req_of ''mtn'') ex_world0)
        = Inl (Error ''Payment initialization failed: MTN MoMo error: Failed to get MTN access token'')"
proof -
  have k: "kora_initializePayment ex_env_kora_rejects 1700 ex_order ex_user
             = Inl (Error ''Kora Pay error: Merchant account 4411 is suspended'')"
    by (simp add: kora_initializePayment_def ex_env_kora_rejects_def ex_env_def)
  have f: "payfast_initializePayment ex_env ex_cfg_dev 1700 ex_order ex_user_unnamed
             (return_url (init_req_of ''payfast''))
             = Inl (Error (''PayFast error: '' @ cannot_read ''null'' ''split''))"
    by (simp add: payfast_initializePayment_def ex_user_unnamed_def ex_user_def)
  have t: "mtn_initializePayment ex_env_down 1700 ex_order ex_user
             = Inl (Error ''MTN MoMo error: Failed to get MTN access token'')"
    by (simp add: mtn_initializePayment_def ex_env_down_def ex_env_def)
  have pr: "NODE_ENV ex_cfg = Some ''production''" "NODE_ENV ex_cfg_dev \<noteq> Some ''production''"
    by (simp_all add: ex_cfg_def ex_cfg_dev_def)
  show ?thesis
    using adapter_failure_persists_nothing
            [OF ex_guards(1,2,3) _ ex_guards(4,6,7),
             of "''kora''" Kora "Error ''Kora Pay error: Merchant account 4411 is suspended''"
                ex_env_kora_rejects 1700 ex_cfg]
      adapter_failure_persists_nothing
            [OF ex_guards(1,2,3) _ ex_guards(5,6,7),
             of "''payfast''" PayFast
                "Error (''PayFast error: '' @ cannot_read ''null'' ''split'')"
                ex_env 1700 ex_cfg_dev]
      adapter_failure_persists_nothing
            [OF ex_guards(1,2,3) _ ex_guards(4,6,7),
             of "''mtn''" MTN "Error ''MTN MoMo error: Failed to get MTN access token''"
                ex_env_down 1700 ex_cfg]
      k f t pr
    by simp
qed

subsection \<open>C7\<close>

text \<open>
  C7: for an order whose payment status is not pending, \<^verbatim>\<open>/initialize\<close> fails with
  \<^verbatim>\<open>Order payment has already been processed\<close> (the AlreadyProcessed of the specification)
  before any service is called: the result is the same for every environment, and the
  store, with its log of gateway calls, is unchanged. Conversely the log of gateway
  calls grows only for an order that was found with payment status pending.
\<close>

theorem resolved_order_is_refused_before_any_call:
  "(order_id req = Some oid \<and> oid \<noteq> [] \<and> payment_method req = Some m \<and> m \<noteq> []
      \<and> find_order w oid usr = Some ord \<and> o_payment_status ord \<noteq> Pending
    \<longrightarrow> initialize env cfg now usr req w
          = (Inl (ValidationError ''Order payment has already been processed''), w))
   \<and> (gateway_calls (snd (initialize env cfg now usr req w)) \<noteq> gateway_calls w
    \<longrightarrow> (\<exists>oid' ord'. order_id req = Some oid' \<and> find_order w oid' usr = Some ord'
            \<and> o_payment_status ord' = Pending))"
  using initialize_calls_only_when_pending [of env cfg now usr req w]
  by (auto simp add: initialize_found)

theorem resolved_order_is_refused_before_any_call_witness:
  "order_id (init_req_of ''payfast'') = Some ''o1''
   \<and> payment_method (init_req_of ''payfast'') = Some ''payfast''
   \<and> find_order ex_world_paid_order ''o1'' ex_user = Some ex_paid_order
   \<and> o_payment_status ex_paid_order \<noteq> Pending
   \<and> initialize ex_env ex_cfg 1700 ex_user (init_req_of ''payfast'') ex_world_paid_order
        = (Inl (ValidationError ''Order payment has already been processed''),
           ex_world_paid_order)
   \<and> gateway_calls (snd (initialize ex_env ex_cfg 1700 ex_user (init_req_of ''payfast'') ex_world0))
        \<noteq> gateway_calls ex_world0
   \<and> find_order ex_world0 ''o1'' ex_user = Some ex_order
   \<and> o_payment_status ex_order = Pending"
proof -
  have a: "order_id (init_req_of ''payfast'') = Some ''o1''" "''o1'' \<noteq> []"
    "payment_method (init_req_of ''payfast'') = Some ''payfast''" "''payfast'' \<noteq> []"
    by (simp_all add: init_req_of_def)
  have b: "find_order ex_world_paid_order ''o1'' ex_user = Some ex_paid_order"
    by (simp add: find_order_def ex_world_paid_order_def ex_world0_def ex_paid_order_def
        ex_order_def ex_user_def)
  have c: "o_payment_status ex_paid_order \<noteq> Pending"
    by (simp add: ex_paid_order_def ex_order_def)
  have g: "gateway_calls (snd (initialize ex_env ex_cfg 1700 ex_user (init_req_of ''payfast'')
              ex_world0)) \<noteq> gateway_calls ex_world0"
    by (simp add: ex_defs init_defs payfast_initializePayment_def)
  have b0: "find_order ex_world0 ''o1'' ex_user = Some ex_order"
    by (simp add: find_order_def ex_world0_def ex_order_def ex_user_def)
  have c0: "o_payment_status ex_order = Pending"
    by (simp add: ex_order_def)
  show ?thesis
    using resolved_order_is_refused_before_any_call
            [of "init_req_of ''payfast''" "''o1''" "''payfast''" ex_world_paid_order ex_user
                ex_paid_order ex_env ex_cfg 1700]
      resolved_order_is_refused_before_any_call
            [of "init_req_of ''payfast''" "''o1''" "''payfast''" ex_world0 ex_user
                ex_order ex_env ex_cfg 1700]
      a b c g b0 c0
    by simp
qed

subsection \<open>C10\<close>

text \<open>
  C10, as stated: for a (method, country) pair that is not in the availability table,
  resolving the method fails with UnsupportedMethod. The route selects the service by
  the method id alone. Counterexample: \<^verbatim>\<open>orange\<close> is listed for \<^verbatim>\<open>CM\<close> and not for \<^verbatim>\<open>ZA\<close>,
  and \<^verbatim>\<open>ZA\<close> is outside the countries of the Orange service; \<^verbatim>\<open>/initialize\<close> with
  \<^verbatim>\<open>orange\<close> for a user of country \<^verbatim>\<open>ZA\<close> calls the Orange service and stores a pending
  payment (in the fallback currency of the service).
\<close>

theorem unlisted_pair_is_initialized:
  "\<not> in_availability_table ''orange'' ''ZA''
   \<and> in_availability_table ''orange'' ''CM''
   \<and> \<not> orange_isAvailableInCountry ''ZA''
   \<and> u_country ex_user = ''ZA''
   \<and> fst (initialize ex_env ex_cfg 1700 ex_user (init_req_of ''orange'') ex_world0)
        = Inr \<lparr>r_payment_id = ''mg_o1_1700'',
               r_payment_url = Some (JStr ''https://webpayment.example/tk1''),
               r_payment_method = ''orange'', r_amount = Some 100000, r_currency = ''XAF'',
               r_expires_at = 1801700\<rparr>
   \<and> gateway_calls (snd (initialize ex_env ex_cfg 1700 ex_user (init_req_of ''orange'') ex_world0))
        = [Orange]
   \<and> map_option p_status
        (payments (snd (initialize ex_env ex_cfg 1700 ex_user (init_req_of ''orange'') ex_world0))
           ''mg_o1_1700'')
        = Some Pending"
  by (simp add: ex_defs init_defs orange_initializePayment_def orange_getCurrency_def
      orange_isAvailableInCountry_def in_availability_table_def paymentMethods_def prop_of_def)

text \<open>
  C10, amended: \<^verbatim>\<open>/initialize\<close> consults neither the country nor the availability table.
  Once the order is found and pending and the phone number guard is passed, a method id
  other than \<^verbatim>\<open>kora\<close>, \<^verbatim>\<open>mtn\<close>, \<^verbatim>\<open>orange\<close>, \<^verbatim>\<open>paygate\<close>, \<^verbatim>\<open>payfast\<close> fails with
  \<^verbatim>\<open>Payment initialization failed: Unsupported payment method\<close> and changes nothing; and
  for every country of the user, \<^verbatim>\<open>kora\<close> calls the \<^verbatim>\<open>initializePayment\<close> of the Kora service,
  \<^verbatim>\<open>mtn\<close> that of MTN, \<^verbatim>\<open>orange\<close> that of Orange, \<^verbatim>\<open>paygate\<close> that of PayGate and \<^verbatim>\<open>payfast\<close> that
  of PayFast: a failure of that call is the failure of the route, and its result is
  the response of the route and the pending Payment row stored under the returned id.
  The table decides only what \<^verbatim>\<open>GET /methods\<close> lists.
\<close>

theorem method_id_alone_selects_the_service:
  assumes "order_id req = Some oid" and "oid \<noteq> []"
    and "payment_method req = Some m" and "m \<noteq> []"
    and "find_order w oid usr = Some ord"
    and "o_payment_status ord = Pending"
    and "m \<in> set [''mtn'', ''orange''] \<longrightarrow> truthy_str (phone_number req)"
  shows "(m \<notin> set [''kora'', ''mtn'', ''orange'', ''paygate'', ''payfast''] \<longrightarrow>
            initialize env cfg now usr req w
              = (Inl (Error ''Payment initialization failed: Unsupported payment method''), w))
         \<and> ((m, g, sr) \<in>
              {(''kora'', Kora, kora_initializePayment env now ord usr),
               (''mtn'', MTN, mtn_initializePayment env now ord usr),
               (''orange'', Orange, orange_initializePayment env now ord usr),
               (''paygate'', PayGate, paygate_initializePayment env now ord usr),
               (''payfast'', PayFast,
                  payfast_initializePayment env cfg now ord usr (return_url req))} \<longrightarrow>
              gateway_calls (snd (initialize env cfg now usr req w)) = gateway_calls w @ [g]
              \<and> (\<forall>e. sr = Inl e \<longrightarrow>
                    fst (initialize env cfg now usr req w)
                      = Inl (Error (''Payment initialization failed: '' @ message e))
                    \<and> payments (snd (initialize env cfg now usr req w)) = payments w)
              \<and> (\<forall>r. sr = Inr r \<and> payments w (ir_payment_id r) = None \<longrightarrow>
                    fst (initialize env cfg now usr req w)
                      = Inr \<lparr>r_payment_id = ir_payment_id r, r_payment_url = ir_payment_url r,
                             r_payment_method = m, r_amount = o_total_price ord,
                             r_currency = ir_currency r, r_expires_at = ir_expires_at r\<rparr>
                    \<and> payments (snd (initialize env cfg now usr req w))
                      = (payments w)(ir_payment_id r \<mapsto>
                          \<lparr>p_id = ir_payment_id r, p_order_id = o_id ord, p_user_id = u_id usr,
                           p_payment_method = m, p_amount = o_total_price ord,
                           p_currency = ir_currency r, p_status = Pending,
                           p_gateway_transaction_id =
                             (case ir_transaction_id r of None \<Rightarrow> JNull | Some t \<Rightarrow> t),
                           p_gateway_response = ir_gateway_response r,
                           p_processed_at = None, p_created_at = now,
                           p_updated_at = now\<rparr>)))"
proof (intro conjI impI)
  assume "m \<notin> set [''kora'', ''mtn'', ''orange'', ''paygate'', ''payfast'']"
  then have "gateway_of m = None"
    by (simp add: gateway_of_def)
  then show "initialize env cfg now usr req w
      = (Inl (Error ''Payment initialization failed: Unsupported payment method''), w)"
    using assms by (auto simp add: initialize_found [OF assms(1-5)] try_initialize_unsupported)
next
  assume c: "(m, g, sr) \<in>
              {(''kora'', Kora, kora_initializePayment env now ord usr),
               (''mtn'', MTN, mtn_initializePayment env now ord usr),
               (''orange'', Orange, orange_initializePayment env now ord usr),
               (''paygate'', PayGate, paygate_initializePayment env now ord usr),
               (''payfast'', PayFast,
                  payfast_initializePayment env cfg now ord usr (return_url req))}"
  note sc = switch_case [OF c]
  note served = initialize_served [OF assms sc]
  show "gateway_calls (snd (initialize env cfg now usr req w)) = gateway_calls w @ [g]"
    using served(3) .
  show "\<forall>e. sr = Inl e \<longrightarrow>
          fst (initialize env cfg now usr req w)
            = Inl (Error (''Payment initialization failed: '' @ message e))
          \<and> payments (snd (initialize env cfg now usr req w)) = payments w"
    using served(1) by simp
  show "\<forall>r. sr = Inr r \<and> payments w (ir_payment_id r) = None \<longrightarrow>
          fst (initialize env cfg now usr req w)
            = Inr \<lparr>r_payment_id = ir_payment_id r, r_payment_url = ir_payment_url r,
                   r_payment_method = m, r_amount = o_total_price ord,
                   r_currency = ir_currency r, r_expires_at = ir_expires_at r\<rparr>
          \<and> payments (snd (initialize env cfg now usr req w))
            = (payments w)(ir_payment_id r \<mapsto>
                \<lparr>p_id = ir_payment_id r, p_order_id = o_id ord, p_user_id = u_id usr,
                 p_payment_method = m, p_amount = o_total_price ord,
                 p_currency = ir_currency r, p_status = Pending,
                 p_gateway_transaction_id =
                   (case ir_transaction_id r of None \<Rightarrow> JNull | Some t \<Rightarrow> t),
                 p_gateway_response = ir_gateway_response r,
                 p_processed_at = None, p_created_at = now,
                 p_updated_at = now\<rparr>)"
    using served(2) by (simp add: new_payment_def)
qed

theorem method_id_alone_selects_the_service_witness:
  "''bitcoin'' \<notin> set [''kora'', ''mtn'', ''orange'', ''paygate'', ''payfast'']
   \<and> initialize ex_env ex_cfg 1700 ex_user (init_req_of ''bitcoin'') ex_world0
        = (Inl (Error ''Payment initialization failed: Unsupported payment method''), ex_world0)
   \<and> u_country ex_user = ''ZA''
   \<and> gateway_calls (snd (initialize ex_env ex_cfg 1700 ex_user (init_req_of ''kora'') ex_world0))
        = gateway_calls ex_world0 @ [Kora]
   \<and> gateway_calls (snd (initialize ex_env ex_cfg 1700 ex_user (init_req_of ''mtn'') ex_world0))
        = gateway_calls ex_world0 @ [MTN]
   \<and> gateway_calls (snd (initialize ex_env ex_cfg 1700 ex_user (init_req_of ''orange'') ex_world0))
        = gateway_calls ex_world0 @ [Orange]
   \<and> gateway_calls (snd (initialize ex_env ex_cfg 1700 ex_user (init_req_of ''paygate'') ex_world0))
        = gateway_calls ex_world0 @ [PayGate]
   \<and> gateway_calls (snd (initialize ex_env ex_cfg 1700 ex_user (init_req_of ''payfast'') ex_world0))
        = gateway_calls ex_world0 @ [PayFast]
   \<and> mtn_initializePayment ex_env_down 1700 ex_order ex_user
        = Inl (Error ''MTN MoMo error: Failed to get MTN access token'')
   \<and> fst (initialize ex_env_down ex_cfg 1700 ex_user (init_req_of ''mtn'') ex_world0)
        = Inl (Error ''Payment initialization failed: MTN MoMo error: Failed to get MTN access token'')
   \<and> paygate_initializePayment ex_env 1700 ex_order ex_user
        = Inr \<lparr>ir_payment_id = ''mg_o1_1700'', ir_transaction_id = Some (JStr ''23B785AE''),
               ir_payment_url = Some (JStr
                 ''https://secure.paygate.co.za/payweb3/process.trans?PAY_REQUEST_ID=23B785AE''),
               ir_currency = ''ZAR'', ir_expires_at = 1801700,
               ir_gateway_response = JObj [(''PAY_REQUEST_ID'', JStr ''23B785AE'')]\<rparr>
   \<and> map_option p_payment_method
        (payments (snd (initialize ex_env ex_cfg 1700 ex_user (init_req_of ''paygate'') ex_world0))
           ''mg_o1_1700'') = Some ''paygate''"
proof -
  have n: "''bitcoin'' \<noteq> []" "''kora'' \<noteq> []" "''mtn'' \<noteq> []" "''orange'' \<noteq> []"
    "''paygate'' \<noteq> []" "''payfast'' \<noteq> []"
    by simp_all
  have z: "u_country ex_user = ''ZA''"
    by (simp add: ex_user_def)
  have t: "mtn_initializePayment ex_env_down 1700 ex_order ex_user
             = Inl (Error ''MTN MoMo error: Failed to get MTN access token'')"
    by (simp add: mtn_initializePayment_def ex_env_down_def ex_env_def)
  have pg: "paygate_initializePayment ex_env 1700 ex_order ex_user
        = Inr \<lparr>ir_payment_id = ''mg_o1_1700'', ir_transaction_id = Some (JStr ''23B785AE''),
               ir_payment_url = Some (JStr
                 ''https://secure.paygate.co.za/payweb3/process.trans?PAY_REQUEST_ID=23B785AE''),
               ir_currency = ''ZAR'', ir_expires_at = 1801700,
               ir_gateway_response = JObj [(''PAY_REQUEST_ID'', JStr ''23B785AE'')]\<rparr>"
    by (simp add: paygate_initializePayment_def ex_env_def ex_order_def reference_of_def
        digits.simps digit_char_def Let_def)
  have e0: "payments ex_world0 ''mg_o1_1700'' = None"
    by (simp add: ex_world0_def)
  show ?thesis
    using method_id_alone_selects_the_service
            [OF ex_guards(1,2,3) n(1) ex_guards(4,6,7), of ex_env ex_cfg 1700]
      method_id_alone_selects_the_service
            [OF ex_guards(1,2,3) n(2) ex_guards(4,6,7), where g = Kora
               and sr = "kora_initializePayment ex_env 1700 ex_order ex_user"
               and env = ex_env and cfg = ex_cfg and now = 1700]
      method_id_alone_selects_the_service
            [OF ex_guards(1,2,3) n(3) ex_guards(4,6,7), where g = MTN
               and sr = "mtn_initializePayment ex_env 1700 ex_order ex_user"
               and env = ex_env and cfg = ex_cfg and now = 1700]
      method_id_alone_selects_the_service
            [OF ex_guards(1,2,3) n(4) ex_guards(4,6,7), where g = Orange
               and sr = "orange_initializePayment ex_env 1700 ex_order ex_user"
               and env = ex_env and cfg = ex_cfg and now = 1700]
      method_id_alone_selects_the_service
            [OF ex_guards(1,2,3) n(5) ex_guards(4,6,7), where g = PayGate
               and sr = "paygate_initializePayment ex_env 1700 ex_order ex_user"
               and env = ex_env and cfg = ex_cfg and now = 1700]
      method_id_alone_selects_the_service
            [OF ex_guards(1,2,3) n(6) ex_guards(4,6,7), where g = PayFast
               and sr = "payfast_initializePayment ex_env ex_cfg 1700 ex_order ex_user
                           (return_url (init_req_of ''payfast''))"
               and env = ex_env and cfg = ex_cfg and now = 1700]
      method_id_alone_selects_the_service
            [OF ex_guards(1,2,3) n(3) ex_guards(4,6,7), where g = MTN
               and sr = "mtn_initializePayment ex_env_down 1700 ex_order ex_user"
               and env = ex_env_down and cfg = ex_cfg and now = 1700]
      z t pg e0
    by simp
qed

section \<open>The payment id at initialisation and in the notification\<close>











text \<open>The MTN and Orange services, by contrast, return the reference both times.\<close>

lemma mobile_money_payment_id:
  assumes "g \<in> {MTN, Orange}"
    and "initializePayment env cfg now g ord usr req = Inr r"
    and "echoes g ord now d"
    and "handleWebhook env cfg g d sg = Inr (Some u)"
  shows "js_String (wu_payment_id u) = ir_payment_id r"
  using assms
  by (auto simp add: initializePayment_def mtn_initializePayment_def
      orange_initializePayment_def handleWebhook_def mtn_handleWebhook_def
      orange_handleWebhook_def orange_result_def echoes_def Let_def
      split: net.splits option.splits if_splits)

subsection \<open>C3\<close>




end
